theory Spec2Isabelle
  imports Main "HOL-Library.Word"
begin

unbundle bit_operations_syntax

section \<open>JavaScript values\<close>

text \<open>
  The plugin is TypeScript. Its slots, keys, type identifiers and storage words are all
  JavaScript strings, and most of what the code does is string handling, so the model
  keeps them as strings. A JavaScript string is modelled by the list of its code units,
  restricted to code units below 256: an Isabelle \<open>char\<close>. The one function whose result
  depends on the size of the code units, \<open>encodeStringForStorage\<close>, takes the list of
  16-bit code units instead. A JavaScript number is a
  double; only integer-valued doubles, NaN and the infinities occur in the code that is
  modelled. A bigint is an \<open>int\<close>.
\<close>

datatype number = Fin int | NaN | Inf

datatype jsvalue = Str string | Num number | Big int | Bool bool

text \<open>
  Every \<open>throw\<close> of the source and every exception of a library call is a value of
  \<open>error\<close>; a function that can throw returns \<open>error + 'a\<close>.
\<close>

datatype error =
    SyntaxError
  | RangeError
  | TypeError
  | InvalidArgument
  | VariableNotFound
  | TypeInformationNotFound
  | UnsupportedVariableType
  | InvalidArrayType
  | UnsupportedNestedArrayElement
  | NoStructMembers
  | FieldNotFound string
  | UnsupportedNestedStructField
  | LongStringsNotSupported
  | MappingSlotError error
  | BackendFailure

subsection \<open>String methods\<close>

definition startsWith :: "string \<Rightarrow> string \<Rightarrow> bool" where
  "startsWith s p = (take (length p) s = p)"

primrec indexOf :: "string \<Rightarrow> string \<Rightarrow> nat option" where
  "indexOf p [] = (if p = [] then Some 0 else None)"
| "indexOf p (c # cs) =
     (if startsWith (c # cs) p then Some 0 else map_option Suc (indexOf p cs))"

definition includesStr :: "string \<Rightarrow> string \<Rightarrow> bool" where
  "includesStr s p = (indexOf p s \<noteq> None)"

primrec lastIndexOfChar :: "char \<Rightarrow> string \<Rightarrow> nat \<Rightarrow> nat option" where
  "lastIndexOfChar c [] i = None"
| "lastIndexOfChar c (d # ds) i =
     (case lastIndexOfChar c ds (Suc i) of
        Some j \<Rightarrow> Some j
      | None \<Rightarrow> if d = c then Some i else None)"

definition substring :: "string \<Rightarrow> nat \<Rightarrow> nat \<Rightarrow> string" where
  "substring s a b = take (b - a) (drop a s)"

definition padStart :: "nat \<Rightarrow> char \<Rightarrow> string \<Rightarrow> string" where
  "padStart n c s = replicate (n - length s) c @ s"

definition padEnd :: "nat \<Rightarrow> char \<Rightarrow> string \<Rightarrow> string" where
  "padEnd n c s = s @ replicate (n - length s) c"

text \<open>
  \<open>s.split(sep)\<close> is only used for its first two parts, and only after
  \<open>s.includes(sep)\<close>.
\<close>

definition splitPart0 :: "string \<Rightarrow> string \<Rightarrow> string" where
  "splitPart0 sep s = (case indexOf sep s of None \<Rightarrow> s | Some i \<Rightarrow> take i s)"

definition splitPart1 :: "string \<Rightarrow> string \<Rightarrow> string" where
  "splitPart1 sep s =
     (case indexOf sep s of
        None \<Rightarrow> []
      | Some i \<Rightarrow> splitPart0 sep (drop (i + length sep) s))"

text \<open>White space and line terminators of ECMAScript, among the code units below 256.\<close>

definition isWhiteSpace :: "char \<Rightarrow> bool" where
  "isWhiteSpace c = ((of_char c :: nat) \<in> {9, 10, 11, 12, 13, 32, 160})"

definition isLineTerminator :: "char \<Rightarrow> bool" where
  "isLineTerminator c = ((of_char c :: nat) \<in> {10, 13})"

definition trim :: "string \<Rightarrow> string" where
  "trim s = rev (dropWhile isWhiteSpace (rev (dropWhile isWhiteSpace s)))"

definition toLowerChar :: "char \<Rightarrow> char" where
  "toLowerChar c =
     (let k = (of_char c :: nat)
      in if (65 \<le> k \<and> k \<le> 90) \<or> (192 \<le> k \<and> k \<le> 222 \<and> k \<noteq> 215)
         then char_of (k + 32) else c)"

definition toLowerCase :: "string \<Rightarrow> string" where
  "toLowerCase s = map toLowerChar s"

subsection \<open>Digits\<close>

definition isDigit :: "char \<Rightarrow> bool" where
  "isDigit c = (48 \<le> (of_char c :: nat) \<and> (of_char c :: nat) \<le> 57)"

text \<open>The regular expression \<open>/^\d+$/\<close>.\<close>

definition isDecimalString :: "string \<Rightarrow> bool" where
  "isDecimalString s = (s \<noteq> [] \<and> list_all isDigit s)"

definition digitValue :: "char \<Rightarrow> nat option" where
  "digitValue c =
     (let k = (of_char c :: nat)
      in if 48 \<le> k \<and> k \<le> 57 then Some (k - 48)
         else if 97 \<le> k \<and> k \<le> 102 then Some (k - 87)
         else if 65 \<le> k \<and> k \<le> 70 then Some (k - 55)
         else None)"

definition digitNat :: "char \<Rightarrow> nat" where
  "digitNat c = (case digitValue c of Some d \<Rightarrow> d | None \<Rightarrow> 0)"

definition isRadixString :: "nat \<Rightarrow> string \<Rightarrow> bool" where
  "isRadixString r s =
     (s \<noteq> [] \<and> list_all (\<lambda>c. case digitValue c of Some d \<Rightarrow> d < r | None \<Rightarrow> False) s)"

definition radixValue :: "nat \<Rightarrow> string \<Rightarrow> nat" where
  "radixValue r s = foldl (\<lambda>a c. r * a + digitNat c) 0 s"

definition hexChar :: "nat \<Rightarrow> char" where
  "hexChar d = ''0123456789abcdef'' ! d"

text \<open>\<open>n.toString(16)\<close> and \<open>n.toString()\<close> of a non-negative integer.\<close>

fun toString16 :: "nat \<Rightarrow> string" where
  "toString16 n =
     (if n < 16 then [hexChar n] else toString16 (n div 16) @ [hexChar (n mod 16)])"

declare toString16.simps [simp del]

fun toString10 :: "nat \<Rightarrow> string" where
  "toString10 n =
     (if n < 10 then [hexChar n] else toString10 (n div 10) @ [hexChar (n mod 10)])"

declare toString10.simps [simp del]

definition bigintToString16 :: "int \<Rightarrow> string" where
  "bigintToString16 n =
     (if n < 0 then CHR ''-'' # toString16 (nat (- n)) else toString16 (nat n))"

definition bigintToString10 :: "int \<Rightarrow> string" where
  "bigintToString10 n =
     (if n < 0 then CHR ''-'' # toString10 (nat (- n)) else toString10 (nat n))"

definition numberToString16 :: "number \<Rightarrow> string" where
  "numberToString16 x =
     (case x of Fin n \<Rightarrow> bigintToString16 n | NaN \<Rightarrow> ''NaN'' | Inf \<Rightarrow> ''Infinity'')"

subsection \<open>Numbers\<close>

text \<open>
  The double nearest to a natural number (round to nearest, ties to even, 53 bits of
  mantissa); \<open>None\<close> is Infinity. Naturals up to \<open>2 ^ 53\<close> are doubles themselves.
\<close>

fun bitlen :: "nat \<Rightarrow> nat" where
  "bitlen n = (if n = 0 then 0 else 1 + bitlen (n div 2))"

declare bitlen.simps [simp del]

definition toDouble :: "nat \<Rightarrow> nat option" where
  "toDouble n =
     (if bitlen n \<le> 53 then Some n
      else let e = bitlen n - 53;
               q = n div 2 ^ e;
               r = n mod 2 ^ e;
               q' = (if 2 ^ e < 2 * r \<or> (2 * r = 2 ^ e \<and> odd q) then q + 1 else q)
           in if 2 ^ 1024 \<le> q' * 2 ^ e then None else Some (q' * 2 ^ e))"

text \<open>
  \<open>parseInt(s, 10)\<close>: leading white space, an optional sign, then the longest run of
  decimal digits; NaN when there is none. (For more than 20 significant digits
  ECMAScript lets an implementation round the digits after the 20th to zero before the
  conversion to a double; the model converts exactly.)
\<close>

definition parseInt :: "string \<Rightarrow> number" where
  "parseInt s =
     (let t = dropWhile isWhiteSpace s;
          neg = (t \<noteq> [] \<and> hd t = CHR ''-'');
          u = (if t \<noteq> [] \<and> (hd t = CHR ''-'' \<or> hd t = CHR ''+'') then tl t else t);
          ds = takeWhile isDigit u
      in if ds = [] then NaN
         else case toDouble (radixValue 10 ds) of
                None \<Rightarrow> Inf
              | Some m \<Rightarrow> Fin (if neg then - int m else int m))"

definition numberLess :: "number \<Rightarrow> int \<Rightarrow> bool" where
  "numberLess x k = (case x of Fin n \<Rightarrow> n < k | NaN \<Rightarrow> False | Inf \<Rightarrow> False)"

definition numberTimes :: "number \<Rightarrow> int \<Rightarrow> number" where
  "numberTimes x k = (case x of Fin n \<Rightarrow> Fin (n * k) | NaN \<Rightarrow> NaN | Inf \<Rightarrow> Inf)"

text \<open>The remainder operator \<open>%\<close> truncates towards zero.\<close>

definition jsRemainder :: "int \<Rightarrow> int \<Rightarrow> int" where
  "jsRemainder a b = sgn a * (\<bar>a\<bar> mod \<bar>b\<bar>)"

subsection \<open>BigInt\<close>

text \<open>
  \<open>BigInt(string)\<close>: the string is trimmed; the empty string is \<open>0n\<close>; then a decimal
  literal with an optional sign, or an unsigned literal with prefix 0x, 0o or 0b.
\<close>

definition StringToBigInt :: "string \<Rightarrow> int option" where
  "StringToBigInt str =
     (let t = trim str
      in if t = [] then Some 0
         else if isRadixString 10 t then Some (int (radixValue 10 t))
         else if hd t = CHR ''+'' \<and> isRadixString 10 (tl t) then Some (int (radixValue 10 (tl t)))
         else if hd t = CHR ''-'' \<and> isRadixString 10 (tl t) then Some (- int (radixValue 10 (tl t)))
         else if (take 2 t = ''0x'' \<or> take 2 t = ''0X'') \<and> isRadixString 16 (drop 2 t)
           then Some (int (radixValue 16 (drop 2 t)))
         else if (take 2 t = ''0o'' \<or> take 2 t = ''0O'') \<and> isRadixString 8 (drop 2 t)
           then Some (int (radixValue 8 (drop 2 t)))
         else if (take 2 t = ''0b'' \<or> take 2 t = ''0B'') \<and> isRadixString 2 (drop 2 t)
           then Some (int (radixValue 2 (drop 2 t)))
         else None)"

definition BigIntOfString :: "string \<Rightarrow> error + int" where
  "BigIntOfString s = (case StringToBigInt s of None \<Rightarrow> Inl SyntaxError | Some n \<Rightarrow> Inr n)"

definition BigIntOfNumber :: "number \<Rightarrow> error + int" where
  "BigIntOfNumber x = (case x of Fin n \<Rightarrow> Inr n | NaN \<Rightarrow> Inl RangeError | Inf \<Rightarrow> Inl RangeError)"

definition BigInt :: "jsvalue \<Rightarrow> error + int" where
  "BigInt v =
     (case v of
        Str s \<Rightarrow> BigIntOfString s
      | Num x \<Rightarrow> BigIntOfNumber x
      | Big n \<Rightarrow> Inr n
      | Bool b \<Rightarrow> Inr (if b then 1 else 0))"

text \<open>\<open>a << b\<close> on bigints; a negative count shifts right.\<close>

definition shiftLeft :: "int \<Rightarrow> int \<Rightarrow> int" where
  "shiftLeft a b = (if 0 \<le> b then push_bit (nat b) a else drop_bit (nat (- b)) a)"

section \<open>The ethers library\<close>

text \<open>
  \<open>ethers.keccak256\<close> hashes bytes to 32 bytes. The hash function itself is a parameter
  of the model, of type \<open>keccak\<close>; what ethers does around it (reading a hex string as
  bytes and printing the digest as a hex string) is modelled.
\<close>

type_synonym byte = "8 word"

type_synonym keccak = "byte list \<Rightarrow> 256 word"

fun hexPairs :: "string \<Rightarrow> byte list option" where
  "hexPairs [] = Some []"
| "hexPairs [a] = None"
| "hexPairs (a # b # rest) =
     (case digitValue a of
        None \<Rightarrow> None
      | Some x \<Rightarrow>
          (case digitValue b of
             None \<Rightarrow> None
           | Some y \<Rightarrow> map_option ((#) (of_nat (16 * x + y))) (hexPairs rest)))"

text \<open>\<open>getBytes\<close> accepts the strings matching \<open>/^0x(?:[0-9a-f][0-9a-f])*$/i\<close>.\<close>

definition getBytes :: "string \<Rightarrow> error + byte list" where
  "getBytes s =
     (if take 2 s = ''0x'' \<or> take 2 s = ''0X''
      then (case hexPairs (drop 2 s) of None \<Rightarrow> Inl InvalidArgument | Some bs \<Rightarrow> Inr bs)
      else Inl InvalidArgument)"

definition byteHex :: "byte \<Rightarrow> string" where
  "byteHex b = [hexChar (unat b div 16), hexChar (unat b mod 16)]"

definition hexlify :: "byte list \<Rightarrow> string" where
  "hexlify bs = ''0x'' @ concat (map byteHex bs)"

definition hexlifyDigest :: "256 word \<Rightarrow> string" where
  "hexlifyDigest w = ''0x'' @ padStart 64 (CHR ''0'') (toString16 (unat w))"

definition keccak256 :: "keccak \<Rightarrow> string \<Rightarrow> error + string" where
  "keccak256 kec data =
     (case getBytes data of Inl e \<Rightarrow> Inl e | Inr bs \<Rightarrow> Inr (hexlifyDigest (kec bs)))"

definition keccak256Bytes :: "keccak \<Rightarrow> byte list \<Rightarrow> string" where
  "keccak256Bytes kec bs = hexlifyDigest (kec bs)"

text \<open>\<open>ethers.concat([a, b])\<close>.\<close>

definition concat2 :: "string \<Rightarrow> string \<Rightarrow> error + string" where
  "concat2 a b =
     (case getBytes a of
        Inl e \<Rightarrow> Inl e
      | Inr x \<Rightarrow> (case getBytes b of Inl e \<Rightarrow> Inl e | Inr y \<Rightarrow> Inr (hexlify (x @ y))))"

text \<open>\<open>ethers.toUtf8Bytes\<close>, for code units below 256.\<close>

definition toUtf8Bytes :: "string \<Rightarrow> byte list" where
  "toUtf8Bytes s =
     concat (map (\<lambda>c. let k = (of_char c :: nat)
                      in if k < 128 then [of_nat k]
                         else [of_nat (192 + k div 64), of_nat (128 + k mod 64)]) s)"

text \<open>
  \<open>ethers.getBigInt\<close> of a string: the empty string is refused, one leading minus sign
  is taken off before \<open>BigInt\<close> reads the rest.
\<close>

definition getBigInt :: "string \<Rightarrow> error + int" where
  "getBigInt s =
     (if s = [] then Inl InvalidArgument
      else if hd s = CHR ''-'' \<and> take 1 (tl s) \<noteq> ''-''
        then (case StringToBigInt (tl s) of None \<Rightarrow> Inl InvalidArgument | Some n \<Rightarrow> Inr (- n))
      else (case StringToBigInt s of None \<Rightarrow> Inl InvalidArgument | Some n \<Rightarrow> Inr n))"

definition bindE :: "error + 'a \<Rightarrow> ('a \<Rightarrow> error + 'b) \<Rightarrow> error + 'b" where
  "bindE r f = (case r of Inl e \<Rightarrow> Inl e | Inr x \<Rightarrow> f x)"

primrec mapE :: "('a \<Rightarrow> error + 'b) \<Rightarrow> 'a list \<Rightarrow> error + 'b list" where
  "mapE f [] = Inr []"
| "mapE f (x # xs) = bindE (f x) (\<lambda>y. bindE (mapE f xs) (\<lambda>ys. Inr (y # ys)))"

section \<open>types.ts: the storage layout and locations\<close>

text \<open>
  The storage layout is the compiler's JSON: \<open>storage\<close>, the state variables, and
  \<open>types\<close>, an object from type identifiers to type descriptions, kept here as an
  association list in the object's key order. Slots and byte counts are decimal
  strings in that JSON, offsets are integers.
\<close>

record member =
  member_label :: string
  member_slot :: string
  member_offset :: int
  member_type :: string

record typeinfo =
  type_label :: string
  numberOfBytes :: "string option"
  members :: "member list option"

record storagevar =
  var_label :: string
  var_slot :: string
  var_offset :: int
  var_type :: string

record layout =
  storage :: "storagevar list"
  types :: "(string \<times> typeinfo) list"

datatype VarLocation =
  VarLocation (vl_name: string) (vl_slot: string) (vl_offset: "int option") (vl_size: number)
    (vl_type: string) (vl_children: "VarLocation list option") (vl_structInfo: "layout option")
    (vl_parent: "(string \<times> typeinfo) list option")

record StorageLocation =
  loc_slot :: string
  loc_offset :: "int option"
  loc_size :: number
  loc_type :: string
  loc_children :: "VarLocation list option"

text \<open>\<open>x || d\<close> for an optional string: the default when the field is absent or empty.\<close>

definition orDefault :: "string option \<Rightarrow> string \<Rightarrow> string" where
  "orDefault x d = (case x of None \<Rightarrow> d | Some s \<Rightarrow> if s = [] then d else s)"

section \<open>storage-layout.ts\<close>

definition calculateMemberSlot :: "string \<Rightarrow> int \<Rightarrow> error + string" where
  "calculateMemberSlot parentSlot offset =
     bindE (getBigInt parentSlot) (\<lambda>slotNumber.
       let offsetSlot = offset div 32
       in Inr (bigintToString16 (slotNumber + offsetSlot)))"

definition memberLocation :: "layout \<Rightarrow> string \<Rightarrow> member \<Rightarrow> error + VarLocation" where
  "memberLocation storageLayout parentSlot m =
     bindE (calculateMemberSlot parentSlot (member_offset m)) (\<lambda>s.
       case map_of (types storageLayout) (member_type m) of
         None \<Rightarrow> Inl TypeError
       | Some t \<Rightarrow>
           Inr (VarLocation (member_label m) s (Some (jsRemainder (member_offset m) 32))
                  (parseInt (orDefault (numberOfBytes t) ''0'')) (member_type m)
                  None (Some storageLayout) None))"

definition findVariableLocation :: "layout \<Rightarrow> string \<Rightarrow> error + VarLocation option" where
  "findVariableLocation storageLayout varName =
     (case find (\<lambda>item. var_label item = varName) (storage storageLayout) of
        None \<Rightarrow> Inr None
      | Some storageVar \<Rightarrow>
          (case map_of (types storageLayout) (var_type storageVar) of
             None \<Rightarrow> Inl TypeInformationNotFound
           | Some varType \<Rightarrow>
               (let mk = VarLocation varName (var_slot storageVar) (Some (var_offset storageVar))
                           (parseInt (orDefault (numberOfBytes varType) ''0''))
                           (var_type storageVar)
                in case members varType of
                     None \<Rightarrow> Inr (Some (mk None (Some storageLayout) None))
                   | Some ms \<Rightarrow>
                       if ms = [] then Inr (Some (mk None (Some storageLayout) None))
                       else bindE (mapE (memberLocation storageLayout (var_slot storageVar)) ms)
                              (\<lambda>cs. Inr (Some (mk (Some cs) (Some storageLayout) None))))))"

text \<open>
  \<open>calculateMappingSlot\<close>. The source writes the three-way encoding of the key twice,
  word for word, once in the branch for small decimal slots (lines 603 to 618 of the
  file) and once in the general branch (lines 638 to 651); \<open>encodeKey\<close> is that block.
\<close>

definition encodeKey :: "keccak \<Rightarrow> string \<Rightarrow> error + string" where
  "encodeKey kec key =
     (if startsWith key ''0x''
      then Inr (''0x'' @ padStart 64 (CHR ''0'') (drop 2 key))
      else if isDecimalString key
      then bindE (BigIntOfString key) (\<lambda>keyBigInt.
             Inr (''0x'' @ padStart 64 (CHR ''0'') (bigintToString16 keyBigInt)))
      else Inr (keccak256Bytes kec (toUtf8Bytes key)))"

definition smallSlotPath :: "keccak \<Rightarrow> string \<Rightarrow> string \<Rightarrow> error + string" where
  "smallSlotPath kec slot key =
     (let slotNum = parseInt slot;
          slotHex = padStart 64 (CHR ''0'') (numberToString16 slotNum);
          slotBytes = ''0x'' @ slotHex
      in if isDecimalString key \<and> numberLess (parseInt key) 1000
         then (let keyNum = parseInt key;
                   keyHex = padStart 64 (CHR ''0'') (numberToString16 keyNum);
                   keyBytes = ''0x'' @ keyHex
               in bindE (concat2 keyBytes slotBytes) (keccak256 kec))
         else bindE (encodeKey kec key) (\<lambda>keyBytes.
                bindE (concat2 keyBytes slotBytes) (keccak256 kec)))"

definition generalPath :: "keccak \<Rightarrow> string \<Rightarrow> string \<Rightarrow> error + string" where
  "generalPath kec slot key =
     (let slotFormatted = (if startsWith slot ''0x'' then slot else ''0x'' @ slot)
      in bindE (getBigInt slotFormatted) (\<lambda>slotBigInt.
           let slotHex = padStart 64 (CHR ''0'') (bigintToString16 slotBigInt);
               slotBytes = ''0x'' @ slotHex
           in bindE (encodeKey kec key) (\<lambda>keyBytes.
                bindE (concat2 keyBytes slotBytes) (keccak256 kec))))"

definition calculateMappingSlot :: "keccak \<Rightarrow> string \<Rightarrow> string \<Rightarrow> error + string" where
  "calculateMappingSlot kec slot key =
     (case (if isDecimalString slot \<and> numberLess (parseInt slot) 1000
            then smallSlotPath kec slot key
            else generalPath kec slot key) of
        Inl e \<Rightarrow> Inl (MappingSlotError e)
      | Inr h \<Rightarrow> Inr h)"

definition calculateArraySlot :: "string \<Rightarrow> number \<Rightarrow> error + string" where
  "calculateArraySlot baseSlot index =
     (let slotFormatted = (if startsWith baseSlot ''0x'' then baseSlot else ''0x'' @ baseSlot)
      in bindE (getBigInt slotFormatted) (\<lambda>slotNumber.
           bindE (BigIntOfNumber index) (\<lambda>indexBigInt.
             let finalSlot = slotNumber + indexBigInt
             in Inr (''0x'' @ bigintToString16 finalSlot))))"

datatype arrayIndex = IndexString string | IndexNumber number

definition calculateDynamicArraySlot :: "keccak \<Rightarrow> string \<Rightarrow> arrayIndex \<Rightarrow> error + string" where
  "calculateDynamicArraySlot kec baseSlot index =
     (if index = IndexString ''length'' \<or> index = IndexString ''.length'' then Inr baseSlot
      else let indexNumber = (case index of IndexString s \<Rightarrow> parseInt s | IndexNumber x \<Rightarrow> x)
           in bindE (BigIntOfString baseSlot) (\<lambda>baseSlotBI.
                bindE (keccak256 kec (''0x'' @ padStart 64 (CHR ''0'') (bigintToString16 baseSlotBI)))
                  (\<lambda>hash.
                     bindE (BigIntOfString hash) (\<lambda>hashBI.
                       bindE (BigIntOfNumber indexNumber) (\<lambda>indexBI.
                         Inr (bigintToString10 (hashBI + indexBI)))))))"

section \<open>path-utils.ts\<close>

definition calculateRelativeSlot :: "string \<Rightarrow> string \<Rightarrow> error + string" where
  "calculateRelativeSlot baseSlot relativeSlot =
     bindE (if startsWith baseSlot ''0x'' then getBigInt baseSlot
            else BigIntOfNumber (parseInt baseSlot)) (\<lambda>baseSlotBigInt.
       let relativeSlotNum = parseInt relativeSlot
       in bindE (BigIntOfNumber relativeSlotNum) (\<lambda>r.
            Inr (''0x'' @ bigintToString16 (baseSlotBigInt + r))))"

definition getSizeForType :: "string \<Rightarrow> number" where
  "getSizeForType ty =
     (if startsWith ty ''t_uint8'' \<or> startsWith ty ''t_bool'' then Fin 1
      else if startsWith ty ''t_uint16'' then Fin 2
      else if startsWith ty ''t_uint32'' then Fin 4
      else if startsWith ty ''t_uint64'' then Fin 8
      else if startsWith ty ''t_uint128'' then Fin 16
      else Fin 32)"

text \<open>
  The regular expressions of the file. \<open>regexSearch\<close> tries a pattern at every position
  from the left, as an unanchored \<open>match\<close> does; each \<open>...At\<close> function is one pattern
  anchored at the start of its argument and returns the first capture group.
\<close>

primrec regexSearch :: "(string \<Rightarrow> 'a option) \<Rightarrow> string \<Rightarrow> 'a option" where
  "regexSearch f [] = f []"
| "regexSearch f (c # cs) = (case f (c # cs) of Some r \<Rightarrow> Some r | None \<Rightarrow> regexSearch f cs)"

text \<open>\<open>/t_array\((.*?)\)/\<close>: the dot does not match a line terminator.\<close>

definition arrayPatternAt :: "string \<Rightarrow> string option" where
  "arrayPatternAt s =
     (if startsWith s ''t_array(''
      then (let rest = drop 8 s;
                g = takeWhile (\<lambda>c. c \<noteq> CHR '')'' \<and> \<not> isLineTerminator c) rest
            in if startsWith (drop (length g) rest) '')'' then Some g else None)
      else None)"

text \<open>\<open>/t_struct\(([^)]*)\)(\d+)_storage/\<close>.\<close>

definition structPatternAt :: "string \<Rightarrow> string option" where
  "structPatternAt s =
     (if startsWith s ''t_struct(''
      then (let rest = drop 9 s;
                g = takeWhile (\<lambda>c. c \<noteq> CHR '')'') rest;
                after = drop (length g) rest;
                ds = takeWhile isDigit (drop 1 after)
            in if startsWith after '')'' \<and> ds \<noteq> [] \<and>
                  startsWith (drop (1 + length ds) after) ''_storage''
               then Some g else None)
      else None)"

text \<open>\<open>/^(t_[a-z0-9_]+)/\<close>.\<close>

definition isTypeIdChar :: "char \<Rightarrow> bool" where
  "isTypeIdChar c =
     (let k = (of_char c :: nat)
      in (97 \<le> k \<and> k \<le> 122) \<or> (48 \<le> k \<and> k \<le> 57) \<or> k = 95)"

definition typePrefixPattern :: "string \<Rightarrow> string option" where
  "typePrefixPattern s =
     (if startsWith s ''t_'' \<and> takeWhile isTypeIdChar (drop 2 s) \<noteq> []
      then Some (''t_'' @ takeWhile isTypeIdChar (drop 2 s)) else None)"

text \<open>Lines 13 to 49 of \<open>resolveMappingPath\<close>: the key and value types read off the
  mapping's type identifier, with the defaults \<open>t_uint256\<close> and \<open>t_bool\<close>.\<close>

definition mappingKeyValueTypes :: "string \<Rightarrow> string \<times> string" where
  "mappingKeyValueTypes ty =
     (if startsWith ty ''t_mapping(''
      then (case lastIndexOfChar (CHR '')'') ty 0 of
              None \<Rightarrow> (''t_uint256'', ''t_bool'')
            | Some endParenIndex \<Rightarrow>
                if 10 < endParenIndex
                then (let innerContent = substring ty 10 endParenIndex
                      in if includesStr innerContent ''=>''
                         then (trim (splitPart0 ''=>'' innerContent),
                               trim (splitPart1 ''=>'' innerContent))
                         else if includesStr innerContent '',''
                         then (trim (splitPart0 '','' innerContent),
                               trim (splitPart1 '','' innerContent))
                         else (case typePrefixPattern innerContent of
                                 Some k \<Rightarrow> (k, ''t_bool'')
                               | None \<Rightarrow> (''t_uint256'', ''t_bool'')))
                else (''t_uint256'', ''t_bool''))
      else (''t_uint256'', ''t_bool''))"

text \<open>Lines 51 to 64: the key is formatted by the declared key type.\<close>

definition formatKey :: "string \<Rightarrow> string \<Rightarrow> string" where
  "formatKey keyType key =
     (if includesStr keyType ''t_address''
      then (if startsWith key ''0x'' then key else ''0x'' @ key)
      else if includesStr keyType ''t_uint'' \<or> includesStr keyType ''t_int''
      then (case BigIntOfString key of Inr n \<Rightarrow> bigintToString10 n | Inl e \<Rightarrow> key)
      else key)"

text \<open>Lines 105 to 134: the children of a struct that is the value of a mapping, built
  from the layout the variable carries.\<close>

definition structNameOf :: "string \<Rightarrow> string" where
  "structNameOf valueType =
     (case regexSearch structPatternAt valueType of
        None \<Rightarrow> ''unknown''
      | Some g \<Rightarrow> if g = [] then ''unknown'' else g)"

definition mappedMemberLocation ::
  "(string \<times> typeinfo) list \<Rightarrow> string \<Rightarrow> member \<Rightarrow> error + VarLocation" where
  "mappedMemberLocation tys mappingSlot m =
     bindE (calculateRelativeSlot mappingSlot (orDefault (Some (member_slot m)) ''0'')) (\<lambda>s.
       Inr (VarLocation (member_label m) s (Some (member_offset m))
              (parseInt (orDefault (case map_of tys (member_type m) of
                                      None \<Rightarrow> None | Some t \<Rightarrow> numberOfBytes t) ''32''))
              (member_type m) None None None))"

definition structChildren ::
  "VarLocation \<Rightarrow> string \<Rightarrow> string \<Rightarrow> error + VarLocation list option" where
  "structChildren varLocation valueType mappingSlot =
     (case vl_structInfo varLocation of
        None \<Rightarrow> Inr None
      | Some info \<Rightarrow>
          (let structName = structNameOf valueType;
               structMatch = regexSearch structPatternAt valueType
           in case find (\<lambda>t. type_label t = ''struct '' @ structName \<or>
                               type_label t = ''struct TestContract.'' @ structName \<or>
                               (case structMatch of
                                  None \<Rightarrow> False
                                | Some g \<Rightarrow> type_label t = ''struct '' @ g))
                        (map snd (types info)) of
                None \<Rightarrow> Inr None
              | Some structType \<Rightarrow>
                  (case members structType of
                     None \<Rightarrow> Inr None
                   | Some ms \<Rightarrow>
                       bindE (mapE (mappedMemberLocation (types info) mappingSlot) ms)
                         (\<lambda>cs. Inr (Some cs)))))"

text \<open>
  Lines 286 to 339 of \<open>resolveStructPath\<close>: a struct location without children looks
  for the members in \<open>parent.types\<close> and then asks the global runtime environment
  (\<open>hre\<close>, here the function from a type identifier to its description that
  \<open>_getStorageLayoutForType\<close> computes from the layout files). What it finds are the
  members of the layout JSON, which carry a \<open>label\<close> and no \<open>name\<close>; the search for the
  field compares \<open>child.name\<close>, so on them it finds nothing and the field is reported
  missing.
\<close>

definition fallbackMembers ::
  "(string \<Rightarrow> typeinfo option) \<Rightarrow> VarLocation \<Rightarrow> member list" where
  "fallbackMembers hre varLocation =
     (let fromParent =
            (case vl_parent varLocation of
               None \<Rightarrow> []
             | Some tys \<Rightarrow>
                 if vl_type varLocation = [] then []
                 else (case map_of tys (vl_type varLocation) of
                         None \<Rightarrow> []
                       | Some t \<Rightarrow> (case members t of None \<Rightarrow> [] | Some ms \<Rightarrow> ms)))
      in if fromParent \<noteq> [] then fromParent
         else (case hre (vl_type varLocation) of
                 None \<Rightarrow> []
               | Some t \<Rightarrow> (case members t of None \<Rightarrow> [] | Some ms \<Rightarrow> ms)))"

definition withParent :: "VarLocation \<Rightarrow> (string \<times> typeinfo) list option \<Rightarrow> VarLocation" where
  "withParent field p =
     (case p of
        None \<Rightarrow> field
      | Some tys \<Rightarrow>
          VarLocation (vl_name field) (vl_slot field) (vl_offset field) (vl_size field)
            (vl_type field) (vl_children field) (vl_structInfo field) (Some tys))"

definition plainLocation :: "string \<Rightarrow> int option \<Rightarrow> number \<Rightarrow> string \<Rightarrow> StorageLocation" where
  "plainLocation s off sz ty =
     \<lparr>loc_slot = s, loc_offset = off, loc_size = sz, loc_type = ty, loc_children = None\<rparr>"

text \<open>
  The three resolvers call each other on \<open>path.slice(1)\<close>. Every call site passes a
  non-empty path to \<open>resolveMappingPath\<close> and \<open>resolveStructPath\<close>, which read
  \<open>path[0]\<close> first; the model passes the first element and the rest of the path
  separately. \<open>resolveArrayPath\<close> handles the empty path itself, below.
\<close>

fun resolveMappingPath ::
    "keccak \<Rightarrow> (string \<Rightarrow> typeinfo option) \<Rightarrow> VarLocation \<Rightarrow> string \<Rightarrow> string list
      \<Rightarrow> error + StorageLocation"
  and resolveArrayElement ::
    "keccak \<Rightarrow> (string \<Rightarrow> typeinfo option) \<Rightarrow> VarLocation \<Rightarrow> string \<Rightarrow> string list
      \<Rightarrow> error + StorageLocation"
  and resolveStructPath ::
    "keccak \<Rightarrow> (string \<Rightarrow> typeinfo option) \<Rightarrow> VarLocation \<Rightarrow> string \<Rightarrow> string list
      \<Rightarrow> error + StorageLocation"
where
  "resolveMappingPath kec hre varLocation key rest =
     (let keyType = fst (mappingKeyValueTypes (vl_type varLocation));
          valueType = snd (mappingKeyValueTypes (vl_type varLocation));
          formattedKey = formatKey keyType key
      in case calculateMappingSlot kec (vl_slot varLocation) formattedKey of
           Inl e \<Rightarrow> Inl e
         | Inr mappingSlot \<Rightarrow>
             (case rest of
                [] \<Rightarrow> Inr (plainLocation mappingSlot None (getSizeForType valueType) valueType)
              | k # ks \<Rightarrow>
                  if startsWith valueType ''t_mapping''
                  then resolveMappingPath kec hre
                         (VarLocation ''innerMapping'' mappingSlot None (Fin 32) valueType
                            None None None) k ks
                  else if startsWith valueType ''t_array''
                  then resolveArrayElement kec hre
                         (VarLocation ''innerArray'' mappingSlot None (Fin 32) valueType
                            None None None) k ks
                  else if startsWith valueType ''t_struct''
                  then (case structChildren varLocation valueType mappingSlot of
                          Inl e \<Rightarrow> Inl e
                        | Inr cs \<Rightarrow>
                            resolveStructPath kec hre
                              (VarLocation (structNameOf valueType) mappingSlot None (Fin 32)
                                 valueType cs None None) k ks)
                  else Inr (plainLocation mappingSlot None (getSizeForType valueType) valueType)))"
| "resolveArrayElement kec hre varLocation index remainingPath =
     (if index = ''length'' \<or> index = ''.length''
      then (case remainingPath of
              [] \<Rightarrow> Inr (plainLocation (vl_slot varLocation) (Some 0) (Fin 32) ''t_uint256'')
            | k # ks \<Rightarrow>
                resolveStructPath kec hre
                  (VarLocation (vl_name varLocation @ ''.length'') (vl_slot varLocation)
                     (Some 0) (Fin 32) ''t_uint256'' None None None) k ks)
      else case (if includesStr (vl_type varLocation) ''t_array'' \<and>
                    includesStr (vl_type varLocation) ''dyn''
                 then calculateDynamicArraySlot kec (vl_slot varLocation) (IndexString index)
                 else calculateArraySlot (vl_slot varLocation) (parseInt index)) of
             Inl e \<Rightarrow> Inl e
           | Inr elementSlot \<Rightarrow>
               (case regexSearch arrayPatternAt (vl_type varLocation) of
                  None \<Rightarrow> Inl InvalidArrayType
                | Some elementType \<Rightarrow>
                    if elementType = [] then Inl InvalidArrayType
                    else (case remainingPath of
                            [] \<Rightarrow> Inr (plainLocation elementSlot None
                                          (getSizeForType elementType) elementType)
                          | k # ks \<Rightarrow>
                              if startsWith elementType ''t_struct''
                              then resolveStructPath kec hre
                                     (VarLocation ''innerStruct'' elementSlot None
                                        (getSizeForType elementType) elementType
                                        (vl_children varLocation) None None) k ks
                              else if startsWith elementType ''t_array''
                              then resolveArrayElement kec hre
                                     (VarLocation ''innerArray'' elementSlot None (Fin 32)
                                        elementType None None None) k ks
                              else if startsWith elementType ''t_mapping''
                              then resolveMappingPath kec hre
                                     (VarLocation ''innerMapping'' elementSlot None (Fin 32)
                                        elementType None None None) k ks
                              else Inl UnsupportedNestedArrayElement)))"
| "resolveStructPath kec hre varLocation fieldName rest =
     (case (case vl_children varLocation of None \<Rightarrow> [] | Some cs \<Rightarrow> cs) of
        [] \<Rightarrow>
          if fallbackMembers hre varLocation = [] then Inl NoStructMembers
          else Inl (FieldNotFound fieldName)
      | c # cs \<Rightarrow>
          (case find (\<lambda>child. vl_name child = fieldName) (c # cs) of
             None \<Rightarrow> Inl (FieldNotFound fieldName)
           | Some field \<Rightarrow>
               (case rest of
                  [] \<Rightarrow> Inr (plainLocation (vl_slot field) (vl_offset field) (vl_size field)
                                (vl_type field))
                | k # ks \<Rightarrow>
                    if startsWith (vl_type field) ''t_struct''
                    then resolveStructPath kec hre
                           (withParent field (vl_parent varLocation)) k ks
                    else if startsWith (vl_type field) ''t_mapping''
                    then resolveMappingPath kec hre field k ks
                    else if startsWith (vl_type field) ''t_array''
                    then resolveArrayElement kec hre field k ks
                    else Inl UnsupportedNestedStructField)))"

definition resolveArrayPath ::
  "keccak \<Rightarrow> (string \<Rightarrow> typeinfo option) \<Rightarrow> VarLocation \<Rightarrow> string list
    \<Rightarrow> error + StorageLocation" where
  "resolveArrayPath kec hre varLocation path =
     (case path of
        [] \<Rightarrow> Inr (plainLocation (vl_slot varLocation) (vl_offset varLocation)
                      (vl_size varLocation) (vl_type varLocation))
      | index # remainingPath \<Rightarrow> resolveArrayElement kec hre varLocation index remainingPath)"

text \<open>
  \<open>getStorageLocation\<close> of storage-layout.ts. Loading the layout from the artifacts is
  file access; the model starts from the loaded layout.
\<close>

definition getStorageLocation ::
  "keccak \<Rightarrow> (string \<Rightarrow> typeinfo option) \<Rightarrow> layout \<Rightarrow> string \<Rightarrow> string list
    \<Rightarrow> error + StorageLocation" where
  "getStorageLocation kec hre storageLayout varName varPath =
     bindE (findVariableLocation storageLayout varName) (\<lambda>found.
       case found of
         None \<Rightarrow> Inl VariableNotFound
       | Some varLocation \<Rightarrow>
           (case varPath of
              [] \<Rightarrow> Inr \<lparr>loc_slot = vl_slot varLocation, loc_offset = vl_offset varLocation,
                          loc_size = vl_size varLocation, loc_type = vl_type varLocation,
                          loc_children = vl_children varLocation\<rparr>
            | k # ks \<Rightarrow>
                if startsWith (vl_type varLocation) ''t_mapping''
                then resolveMappingPath kec hre varLocation k ks
                else if startsWith (vl_type varLocation) ''t_array''
                then resolveArrayPath kec hre varLocation (k # ks)
                else if startsWith (vl_type varLocation) ''t_struct''
                then resolveStructPath kec hre varLocation k ks
                else Inl UnsupportedVariableType))"

section \<open>slot-utils.ts\<close>

text \<open>
  The backend is Hardhat's JSON-RPC provider. A call either answers or fails; the
  model takes its answers as a parameter and records the calls that are sent, in order.
\<close>

datatype rpc =
    eth_getStorageAt string string
  | hardhat_setStorageAt string string string

record provider =
  getStorageAt :: "string \<Rightarrow> string \<Rightarrow> error + string"
  setStorageAt :: "string \<Rightarrow> string \<Rightarrow> string \<Rightarrow> error + unit"

definition formatSlot :: "string \<Rightarrow> string" where
  "formatSlot slot =
     (if startsWith slot ''0x'' then slot
      else case BigIntOfString slot of
             Inr slotNumber \<Rightarrow> ''0x'' @ bigintToString16 slotNumber
           | Inl e \<Rightarrow> ''0x'' @ slot)"

text \<open>Lines 507 to 517 of \<open>setPartialSlotValue\<close>, on the bigints; the two bit counts
  are \<open>size * 8\<close> and \<open>offset * 8\<close>.\<close>

definition mergedSlotValue :: "int \<Rightarrow> int \<Rightarrow> int \<Rightarrow> int \<Rightarrow> int" where
  "mergedSlotValue currentBigInt valueBigInt sizeBits offsetBits =
     (let mask = shiftLeft (shiftLeft 1 sizeBits - 1) offsetBits;
          clearedValue = currentBigInt AND NOT mask;
          shiftedValue = shiftLeft valueBigInt offsetBits AND mask
      in clearedValue OR shiftedValue)"

definition partialSlotResult :: "string \<Rightarrow> string \<Rightarrow> int \<Rightarrow> number \<Rightarrow> error + string" where
  "partialSlotResult currentValue encoded offset sz =
     bindE (BigIntOfString currentValue) (\<lambda>currentBigInt.
       bindE (BigIntOfString encoded) (\<lambda>valueBigInt.
         bindE (BigIntOfNumber (numberTimes sz 8)) (\<lambda>sizeBits.
           let resultValue = mergedSlotValue currentBigInt valueBigInt sizeBits (offset * 8)
           in Inr (''0x'' @ padStart 64 (CHR ''0'') (bigintToString16 resultValue)))))"

definition setPartialSlotValue ::
  "provider \<Rightarrow> string \<Rightarrow> string \<Rightarrow> string \<Rightarrow> int \<Rightarrow> number \<Rightarrow> rpc list \<times> (error + unit)" where
  "setPartialSlotValue hre contractAddress slot encoded offset sz =
     (case getStorageAt hre contractAddress slot of
        Inl e \<Rightarrow> ([eth_getStorageAt contractAddress slot], Inl e)
      | Inr currentValue \<Rightarrow>
          (case partialSlotResult currentValue encoded offset sz of
             Inl e \<Rightarrow> ([eth_getStorageAt contractAddress slot], Inl e)
           | Inr resultHex \<Rightarrow>
               ([eth_getStorageAt contractAddress slot,
                 hardhat_setStorageAt contractAddress slot resultHex],
                setStorageAt hre contractAddress slot resultHex)))"

definition encodeUintForStorage :: "jsvalue \<Rightarrow> number \<Rightarrow> string" where
  "encodeUintForStorage v sz =
     (case BigInt v of
        Inr bigIntValue \<Rightarrow> ''0x'' @ padStart 64 (CHR ''0'') (bigintToString16 bigIntValue)
      | Inl e \<Rightarrow> ''0x'' @ padStart 64 (CHR ''0'') ''0'')"

text \<open>\<open>s.padStart(n, '0')\<close> for a number \<open>n\<close>: NaN pads nothing, Infinity asks for a
  string longer than any the engine makes.\<close>

definition padStartNumber :: "number \<Rightarrow> char \<Rightarrow> string \<Rightarrow> error + string" where
  "padStartNumber n c s =
     (case n of Fin k \<Rightarrow> Inr (padStart (nat k) c s) | NaN \<Rightarrow> Inr s | Inf \<Rightarrow> Inl RangeError)"

definition encodeIntForStorage :: "jsvalue \<Rightarrow> number \<Rightarrow> error + string" where
  "encodeIntForStorage v sz =
     bindE (BigInt v) (\<lambda>bigIntValue.
       bindE (if bigIntValue < 0
              then bindE (BigIntOfNumber (numberTimes sz 8)) (\<lambda>bits.
                     let mask = shiftLeft 1 bits - 1
                     in Inr (bigIntValue AND mask))
              else Inr bigIntValue) (\<lambda>masked.
         bindE (padStartNumber (numberTimes sz 2) (CHR ''0'') (bigintToString16 masked)) (\<lambda>hex.
           Inr (''0x'' @ padStart 64 (CHR ''0'') hex))))"

text \<open>The truth value JavaScript gives a value in a condition.\<close>

definition truthy :: "jsvalue \<Rightarrow> bool" where
  "truthy v =
     (case v of
        Str s \<Rightarrow> s \<noteq> []
      | Num x \<Rightarrow> (case x of Fin n \<Rightarrow> n \<noteq> 0 | NaN \<Rightarrow> False | Inf \<Rightarrow> True)
      | Big n \<Rightarrow> n \<noteq> 0
      | Bool b \<Rightarrow> b)"

definition encodeBoolForStorage :: "jsvalue \<Rightarrow> string" where
  "encodeBoolForStorage v =
     (if truthy v
      then ''0x0000000000000000000000000000000000000000000000000000000000000001''
      else ''0x0000000000000000000000000000000000000000000000000000000000000000'')"

definition encodeAddressForStorage :: "jsvalue \<Rightarrow> error + string" where
  "encodeAddressForStorage v =
     (case v of
        Str s \<Rightarrow>
          (let stripped = (if startsWith s ''0x'' then drop 2 s else s)
           in Inr (''0x'' @ padStart 64 (CHR ''0'') (toLowerCase stripped)))
      | Num x \<Rightarrow> Inl TypeError
      | Big n \<Rightarrow> Inl TypeError
      | Bool b \<Rightarrow> Inl TypeError)"

text \<open>
  \<open>encodeStringForStorage\<close> reads its argument one code unit at a time, and what it
  returns depends on how large the code units are. Its argument is therefore the string
  as JavaScript has it, the list of its 16-bit code units, of any value. \<open>codeUnits\<close> gives
  the code units of a string of the model.
\<close>

type_synonym codeUnit = "16 word"

definition codeUnits :: "string \<Rightarrow> codeUnit list" where
  "codeUnits s = map (\<lambda>c. of_nat (of_char c)) s"

text \<open>\<open>value.charCodeAt(i).toString(16).padStart(2, '0')\<close>: two hexadecimal digits for a
  code unit below 256, three or four from 256 on.\<close>

definition charCodeHex :: "codeUnit \<Rightarrow> string" where
  "charCodeHex u = padStart 2 (CHR ''0'') (toString16 (unat u))"

text \<open>\<open>value.length\<close> is the number of code units.\<close>

definition encodeStringForStorage :: "codeUnit list \<Rightarrow> error + string" where
  "encodeStringForStorage v =
     (if length v \<le> 31
      then (let encoded = padEnd 62 (CHR ''0'') (concat (map charCodeHex v))
            in Inr (''0x'' @ encoded @ padStart 2 (CHR ''0'') (toString16 (length v * 2))))
      else Inl LongStringsNotSupported)"

text \<open>A value that is not a string has no \<open>length\<close>, and \<open>undefined <= 31\<close> is false:
  \<open>encodeStringForStorage\<close> throws for it as for a long string.\<close>

definition encodeValueForStorage :: "jsvalue \<Rightarrow> StorageLocation \<Rightarrow> error + string" where
  "encodeValueForStorage v location =
     (let ty = loc_type location; sz = loc_size location
      in if startsWith ty ''t_uint'' then Inr (encodeUintForStorage v sz)
         else if startsWith ty ''t_int'' then encodeIntForStorage v sz
         else if startsWith ty ''t_bool'' then Inr (encodeBoolForStorage v)
         else if startsWith ty ''t_address'' then encodeAddressForStorage v
         else if startsWith ty ''t_string'' \<or> startsWith ty ''t_bytes''
           then (case v of
                   Str s \<Rightarrow> encodeStringForStorage (codeUnits s)
                 | Num x \<Rightarrow> Inl LongStringsNotSupported
                 | Big n \<Rightarrow> Inl LongStringsNotSupported
                 | Bool b \<Rightarrow> Inl LongStringsNotSupported)
         else if startsWith ty ''t_enum'' then Inr (encodeUintForStorage v sz)
         else if startsWith ty ''t_contract'' then encodeAddressForStorage v
         else Inr (encodeUintForStorage v sz))"

definition setSlotValue ::
  "provider \<Rightarrow> StorageLocation \<Rightarrow> jsvalue \<Rightarrow> string \<Rightarrow> rpc list \<times> (error + unit)" where
  "setSlotValue hre location v contractAddress =
     (case encodeValueForStorage v location of
        Inl e \<Rightarrow> ([], Inl e)
      | Inr encodedValue \<Rightarrow>
          (let formattedSlot = formatSlot (loc_slot location)
           in if (case loc_offset location of None \<Rightarrow> False | Some off \<Rightarrow> 0 < off)
              then setPartialSlotValue hre contractAddress formattedSlot encodedValue
                     (case loc_offset location of None \<Rightarrow> 0 | Some off \<Rightarrow> off)
                     (loc_size location)
              else ([hardhat_setStorageAt contractAddress formattedSlot encodedValue],
                    setStorageAt hre contractAddress formattedSlot encodedValue)))"

section \<open>index.ts\<close>

text \<open>\<open>setState\<close> answers \<open>true\<close>, or \<open>false\<close> when anything was thrown; the model also
  returns the calls sent to the backend.\<close>

definition setState ::
  "keccak \<Rightarrow> (string \<Rightarrow> typeinfo option) \<Rightarrow> provider \<Rightarrow> layout \<Rightarrow> string \<Rightarrow> string list
    \<Rightarrow> jsvalue \<Rightarrow> string \<Rightarrow> rpc list \<times> bool" where
  "setState kec hreTypes hre storageLayout varName path v contractAddress =
     (case getStorageLocation kec hreTypes storageLayout varName path of
        Inl e \<Rightarrow> ([], False)
      | Inr location \<Rightarrow>
          (case setSlotValue hre location v contractAddress of
             (calls, Inl e) \<Rightarrow> (calls, False)
           | (calls, Inr u) \<Rightarrow> (calls, True)))"

section \<open>The contracts of the repository\<close>

text \<open>
  The storage layout the Solidity compiler gives \<open>contracts/TestContract.sol\<close>: the
  variables in the order of their declaration, \<open>simpleBool\<close> and \<open>simpleAddress\<close> packed
  into slot 1, the three slots of \<open>person\<close> from slot 5 on. The number in the struct's type
  identifier is the compiler's numbering of the declaration, and arbitrary here.
\<close>

definition personType :: string where
  "personType = ''t_struct(Person)20_storage''"

definition TestContractLayout :: layout where
  "TestContractLayout =
     \<lparr>storage =
        [\<lparr>var_label = ''simpleUint'', var_slot = ''0'', var_offset = 0, var_type = ''t_uint256''\<rparr>,
         \<lparr>var_label = ''simpleBool'', var_slot = ''1'', var_offset = 0, var_type = ''t_bool''\<rparr>,
         \<lparr>var_label = ''simpleAddress'', var_slot = ''1'', var_offset = 1, var_type = ''t_address''\<rparr>,
         \<lparr>var_label = ''simpleString'', var_slot = ''2'', var_offset = 0,
           var_type = ''t_string_storage''\<rparr>,
         \<lparr>var_label = ''uintArray'', var_slot = ''3'', var_offset = 0,
           var_type = ''t_array(t_uint256)dyn_storage''\<rparr>,
         \<lparr>var_label = ''stringMapping'', var_slot = ''4'', var_offset = 0,
           var_type = ''t_mapping(t_uint256,t_string_storage)''\<rparr>,
         \<lparr>var_label = ''person'', var_slot = ''5'', var_offset = 0, var_type = personType\<rparr>,
         \<lparr>var_label = ''personByAddress'', var_slot = ''8'', var_offset = 0,
           var_type = ''t_mapping(t_address,'' @ personType @ '')''\<rparr>,
         \<lparr>var_label = ''people'', var_slot = ''9'', var_offset = 0,
           var_type = ''t_array('' @ personType @ '')dyn_storage''\<rparr>,
         \<lparr>var_label = ''nestedMapping'', var_slot = ''10'', var_offset = 0,
           var_type = ''t_mapping(t_address,t_mapping(t_uint256,t_bool))''\<rparr>],
      types =
        [(''t_uint256'', \<lparr>type_label = ''uint256'', numberOfBytes = Some ''32'', members = None\<rparr>),
         (''t_bool'', \<lparr>type_label = ''bool'', numberOfBytes = Some ''1'', members = None\<rparr>),
         (''t_address'', \<lparr>type_label = ''address'', numberOfBytes = Some ''20'', members = None\<rparr>),
         (''t_string_storage'',
            \<lparr>type_label = ''string'', numberOfBytes = Some ''32'', members = None\<rparr>),
         (''t_array(t_uint256)dyn_storage'',
            \<lparr>type_label = ''uint256[]'', numberOfBytes = Some ''32'', members = None\<rparr>),
         (''t_mapping(t_uint256,t_string_storage)'',
            \<lparr>type_label = ''mapping(uint256 => string)'', numberOfBytes = Some ''32'',
              members = None\<rparr>),
         (''t_mapping(t_address,'' @ personType @ '')'',
            \<lparr>type_label = ''mapping(address => struct TestContract.Person)'',
              numberOfBytes = Some ''32'', members = None\<rparr>),
         (''t_array('' @ personType @ '')dyn_storage'',
            \<lparr>type_label = ''struct TestContract.Person[]'', numberOfBytes = Some ''32'',
              members = None\<rparr>),
         (''t_mapping(t_uint256,t_bool)'',
            \<lparr>type_label = ''mapping(uint256 => bool)'', numberOfBytes = Some ''32'',
              members = None\<rparr>),
         (''t_mapping(t_address,t_mapping(t_uint256,t_bool))'',
            \<lparr>type_label = ''mapping(address => mapping(uint256 => bool))'',
              numberOfBytes = Some ''32'', members = None\<rparr>),
         (personType,
            \<lparr>type_label = ''struct TestContract.Person'', numberOfBytes = Some ''96'',
              members = Some
                [\<lparr>member_label = ''name'', member_slot = ''0'', member_offset = 0,
                   member_type = ''t_string_storage''\<rparr>,
                 \<lparr>member_label = ''age'', member_slot = ''1'', member_offset = 0,
                   member_type = ''t_uint256''\<rparr>,
                 \<lparr>member_label = ''wallet'', member_slot = ''2'', member_offset = 0,
                   member_type = ''t_address''\<rparr>,
                 \<lparr>member_label = ''active'', member_slot = ''2'', member_offset = 20,
                   member_type = ''t_bool''\<rparr>]\<rparr>)]\<rparr>"

text \<open>A runtime environment that knows no layout files, a hash function that is easy to
  follow by hand (the number of bytes of its input plus their sum), and a backend whose every word is zero.\<close>

definition noLayouts :: "string \<Rightarrow> typeinfo option" where
  "noLayouts ty = None"

definition byteSumHash :: keccak where
  "byteSumHash bs = of_nat (length bs + sum_list (map unat bs))"

definition zeroWord :: string where
  "zeroWord = ''0x0000000000000000000000000000000000000000000000000000000000000000''"

definition zeroBackend :: provider where
  "zeroBackend =
     \<lparr>getStorageAt = (\<lambda>a s. Inr zeroWord), setStorageAt = (\<lambda>a s w. Inr ())\<rparr>"

text \<open>A backend in which every slot holds the word \<open>0x00...00ff\<close>.\<close>

definition ffBackend :: provider where
  "ffBackend =
     \<lparr>getStorageAt =
        (\<lambda>a s. Inr ''0x00000000000000000000000000000000000000000000000000000000000000ff''),
      setStorageAt = (\<lambda>a s w. Inr ())\<rparr>"

section \<open>Specification vocabulary\<close>

text \<open>
  What the specification calls \<open>leftPad32\<close>: the 32 bytes of a number, big-endian.
  \<open>byteAt w j\<close> is byte \<open>j\<close> of a word counted from the low-order end.
\<close>

primrec bigEndian :: "nat \<Rightarrow> nat \<Rightarrow> byte list" where
  "bigEndian 0 n = []"
| "bigEndian (Suc k) n = bigEndian k (n div 256) @ [of_nat (n mod 256)]"

definition leftPad32 :: "nat \<Rightarrow> byte list" where
  "leftPad32 n = bigEndian 32 n"

definition byteAt :: "int \<Rightarrow> nat \<Rightarrow> int" where
  "byteAt w j = (w div 256 ^ j) mod 256"

text \<open>The byte with the value of a code unit below 256.\<close>

definition unitByte :: "codeUnit \<Rightarrow> byte" where
  "unitByte u = of_nat (unat u)"

section \<open>Supporting lemmas\<close>

subsection \<open>Evaluation\<close>

lemmas js_defs = startsWith_def includesStr_def substring_def padStart_def padEnd_def splitPart0_def
  splitPart1_def isWhiteSpace_def isLineTerminator_def trim_def toLowerChar_def toLowerCase_def
  isDigit_def isDecimalString_def digitValue_def digitNat_def isRadixString_def radixValue_def
  hexChar_def toString16.simps toString10.simps bigintToString16_def bigintToString10_def
  numberToString16_def bitlen.simps toDouble_def parseInt_def numberLess_def numberTimes_def
  jsRemainder_def StringToBigInt_def BigIntOfString_def BigIntOfNumber_def BigInt_def shiftLeft_def
  getBytes_def byteHex_def hexlify_def hexlifyDigest_def keccak256_def keccak256Bytes_def
  concat2_def toUtf8Bytes_def getBigInt_def bindE_def orDefault_def

lemmas layout_defs = calculateMemberSlot_def memberLocation_def findVariableLocation_def
  encodeKey_def smallSlotPath_def generalPath_def calculateMappingSlot_def calculateArraySlot_def
  calculateDynamicArraySlot_def calculateRelativeSlot_def getSizeForType_def arrayPatternAt_def
  structPatternAt_def isTypeIdChar_def typePrefixPattern_def mappingKeyValueTypes_def formatKey_def
  structNameOf_def mappedMemberLocation_def structChildren_def fallbackMembers_def withParent_def
  plainLocation_def resolveArrayPath_def getStorageLocation_def

lemmas slot_defs = formatSlot_def mergedSlotValue_def partialSlotResult_def setPartialSlotValue_def
  encodeUintForStorage_def padStartNumber_def encodeIntForStorage_def truthy_def
  encodeBoolForStorage_def encodeAddressForStorage_def codeUnits_def charCodeHex_def
  encodeStringForStorage_def encodeValueForStorage_def setSlotValue_def setState_def

lemmas data_defs = personType_def TestContractLayout_def noLayouts_def byteSumHash_def zeroWord_def
  zeroBackend_def

lemma replicate_numeral_eval: "replicate (numeral k) x = x # replicate (numeral k - 1) x"
  by (metis numeral_eq_Suc replicate_Suc diff_Suc_1)

lemmas ev = replicate_numeral_eval

subsection \<open>Digits and their values\<close>

lemma below_16_cases:
  "d < 16 \<Longrightarrow> d = 0 \<or> d = 1 \<or> d = 2 \<or> d = 3 \<or> d = 4 \<or> d = 5 \<or> d = 6 \<or> d = 7 \<or> d = 8
     \<or> d = 9 \<or> d = 10 \<or> d = 11 \<or> d = 12 \<or> d = 13 \<or> d = 14 \<or> d = (15::nat)"
  by arith

lemma digitValue_hexChar: "d < 16 \<Longrightarrow> digitValue (hexChar d) = Some d"
  using below_16_cases [of d] by (auto simp: hexChar_def digitValue_def)

lemma digitNat_hexChar: "d < 16 \<Longrightarrow> digitNat (hexChar d) = d"
  by (simp add: digitNat_def digitValue_hexChar)

lemma isDigit_hexChar: "d < 10 \<Longrightarrow> isDigit (hexChar d)"
  using below_16_cases [of d] by (auto simp: hexChar_def isDigit_def)

lemma hexChar_0: "hexChar 0 = CHR ''0''"
  by (simp add: hexChar_def)

lemma digitValue_bound: "digitValue c = Some d \<Longrightarrow> d < 16"
  by (auto simp: digitValue_def Let_def split: if_splits)

lemma isDigit_digitValue: "isDigit c \<longleftrightarrow> (\<exists>d. digitValue c = Some d \<and> d < 10)"
  by (auto simp: isDigit_def digitValue_def Let_def)

lemma isDecimalString_radix: "isDecimalString s \<longleftrightarrow> isRadixString 10 s"
proof -
  have H: "isDigit = (\<lambda>c. case digitValue c of Some d \<Rightarrow> d < 10 | None \<Rightarrow> False)"
    by (auto simp: isDigit_digitValue fun_eq_iff split: option.splits)
  show ?thesis
    by (simp add: isDecimalString_def isRadixString_def H)
qed

lemma digit_not_whitespace: "digitValue c = Some d \<Longrightarrow> \<not> isWhiteSpace c"
  by (auto simp: digitValue_def isWhiteSpace_def Let_def split: if_splits)

lemma isDigit_not_whitespace: "isDigit c \<Longrightarrow> \<not> isWhiteSpace c"
  by (auto simp: isDigit_digitValue digit_not_whitespace)

subsection \<open>Printing and reading numbers\<close>

lemma toString16_small: "n < 16 \<Longrightarrow> toString16 n = [hexChar n]"
  by (simp add: toString16.simps)

lemma toString16_large:
  "16 \<le> n \<Longrightarrow> toString16 n = toString16 (n div 16) @ [hexChar (n mod 16)]"
  by (subst toString16.simps) simp

lemma toString10_small: "n < 10 \<Longrightarrow> toString10 n = [hexChar n]"
  by (simp add: toString10.simps)

lemma toString10_large:
  "10 \<le> n \<Longrightarrow> toString10 n = toString10 (n div 10) @ [hexChar (n mod 10)]"
  by (subst toString10.simps) simp

lemma radixValue_Nil: "radixValue r [] = 0"
  by (simp add: radixValue_def)

lemma radixValue_snoc: "radixValue r (xs @ [c]) = r * radixValue r xs + digitNat c"
  by (simp add: radixValue_def)

lemma radixValue_single: "radixValue r [c] = digitNat c"
  by (simp add: radixValue_def)

lemma radixValue_toString16: "radixValue 16 (toString16 n) = n"
proof (induction n rule: toString16.induct)
  case (1 n)
  show ?case
  proof (cases "n < 16")
    case True
    then show ?thesis by (simp add: toString16_small radixValue_single digitNat_hexChar)
  next
    case False
    with 1 show ?thesis
      by (simp add: toString16_large radixValue_snoc digitNat_hexChar)
  qed
qed

lemma radixValue_toString10: "radixValue 10 (toString10 n) = n"
proof (induction n rule: toString10.induct)
  case (1 n)
  show ?case
  proof (cases "n < 10")
    case True
    then show ?thesis by (simp add: toString10_small radixValue_single digitNat_hexChar)
  next
    case False
    with 1 show ?thesis
      by (simp add: toString10_large radixValue_snoc digitNat_hexChar)
  qed
qed

lemma toString16_digits:
  "toString16 n \<noteq> [] \<and> list_all (\<lambda>c. \<exists>d. digitValue c = Some d) (toString16 n)"
proof (induction n rule: toString16.induct)
  case (1 n)
  show ?case
  proof (cases "n < 16")
    case True
    then show ?thesis by (simp add: toString16_small digitValue_hexChar)
  next
    case False
    with 1 show ?thesis
      by (simp add: toString16_large digitValue_hexChar)
  qed
qed

lemma toString10_digits: "toString10 n \<noteq> [] \<and> list_all isDigit (toString10 n)"
proof (induction n rule: toString10.induct)
  case (1 n)
  show ?case
  proof (cases "n < 10")
    case True
    then show ?thesis by (simp add: toString10_small isDigit_hexChar)
  next
    case False
    with 1 show ?thesis
      by (simp add: toString10_large isDigit_hexChar)
  qed
qed

lemma isDecimalString_toString10: "isDecimalString (toString10 n)"
  using toString10_digits [of n] by (simp add: isDecimalString_def)

lemma isRadixString_16_iff:
  "isRadixString 16 s \<longleftrightarrow> s \<noteq> [] \<and> list_all (\<lambda>c. \<exists>d. digitValue c = Some d) s"
proof -
  have H: "(\<lambda>c. case digitValue c of Some d \<Rightarrow> d < 16 | None \<Rightarrow> False)
      = (\<lambda>c. \<exists>d. digitValue c = Some d)"
    by (auto simp: fun_eq_iff dest: digitValue_bound split: option.splits)
  show ?thesis by (simp add: isRadixString_def H)
qed

lemma isRadixString_toString16: "isRadixString 16 (toString16 n)"
  using toString16_digits [of n] by (simp add: isRadixString_16_iff)

lemma length_toString16: "0 < k \<Longrightarrow> n < 16 ^ k \<Longrightarrow> length (toString16 n) \<le> k"
proof (induction k arbitrary: n)
  case 0
  then show ?case by simp
next
  case (Suc k)
  show ?case
  proof (cases "n < 16")
    case True
    then show ?thesis by (simp add: toString16_small)
  next
    case False
    then have k: "0 < k" using Suc.prems by (cases k) auto
    have "n div 16 < 16 ^ k" using Suc.prems by (simp add: less_mult_imp_div_less mult.commute)
    with Suc.IH k have "length (toString16 (n div 16)) \<le> k" by simp
    with False show ?thesis by (simp add: toString16_large)
  qed
qed

subsection \<open>Padding with zeros\<close>

lemma digitNat_0: "digitNat (CHR ''0'') = 0"
  by (simp add: digitNat_def digitValue_def)

lemma radixValue_zeros: "radixValue r (replicate k (CHR ''0'') @ s) = radixValue r s"
proof -
  have "foldl (\<lambda>a c. r * a + digitNat c) 0 (replicate k (CHR ''0'')) = 0"
    by (induction k) (simp_all add: digitNat_0)
  then show ?thesis by (simp add: radixValue_def)
qed

lemma radixValue_padStart: "radixValue r (padStart k (CHR ''0'') s) = radixValue r s"
  by (simp add: padStart_def radixValue_zeros)

lemma digitValue_0: "digitValue (CHR ''0'') = Some 0"
  by (simp add: digitValue_def)

lemma isRadixString_padStart:
  "isRadixString 16 s \<Longrightarrow> isRadixString 16 (padStart k (CHR ''0'') s)"
  by (auto simp: padStart_def isRadixString_16_iff list_all_iff digitValue_0)

lemma length_padStart: "length s \<le> k \<Longrightarrow> length (padStart k c s) = k"
  by (simp add: padStart_def)

subsection \<open>BigInt of the strings the code builds\<close>

lemma trim_id:
  assumes "s \<noteq> []" "\<not> isWhiteSpace (hd s)" "\<not> isWhiteSpace (last s)"
  shows "trim s = s"
proof -
  have a: "dropWhile isWhiteSpace s = s"
    using assms by (cases s) auto
  have "dropWhile isWhiteSpace (rev s) = rev s"
    using assms by (cases "rev s") (auto simp: last_rev [symmetric] hd_rev)
  with a show ?thesis by (simp add: trim_def)
qed

lemma radix_string_ends:
  assumes "isRadixString r s"
  shows "s \<noteq> [] \<and> \<not> isWhiteSpace (hd s) \<and> \<not> isWhiteSpace (last s)"
proof -
  from assms have ne: "s \<noteq> []" and all: "\<forall>c\<in>set s. \<exists>d. digitValue c = Some d"
    by (auto simp: isRadixString_def list_all_iff split: option.splits)
  from ne have "hd s \<in> set s" "last s \<in> set s" by auto
  with all ne show ?thesis by (auto dest: digit_not_whitespace)
qed

lemma StringToBigInt_decimal:
  "isDecimalString s \<Longrightarrow> StringToBigInt s = Some (int (radixValue 10 s))"
  using radix_string_ends [of 10 s]
  by (simp add: StringToBigInt_def isDecimalString_radix trim_id)

lemma x_not_digit: "digitValue (CHR ''x'') = None"
  by (simp add: digitValue_def)

lemma StringToBigInt_hex:
  assumes "isRadixString 16 h"
  shows "StringToBigInt (CHR ''0'' # CHR ''x'' # h) = Some (int (radixValue 16 h))"
proof -
  from radix_string_ends [OF assms] have ne: "h \<noteq> []" and l: "\<not> isWhiteSpace (last h)" by auto
  have z: "\<not> isWhiteSpace (CHR ''0'')" by (simp add: isWhiteSpace_def)
  have t: "trim (CHR ''0'' # CHR ''x'' # h) = CHR ''0'' # CHR ''x'' # h"
    by (rule trim_id) (use ne l z in auto)
  have nd: "\<not> isRadixString 10 (CHR ''0'' # CHR ''x'' # h)"
    by (simp add: isRadixString_def x_not_digit)
  show ?thesis
    using assms by (simp add: StringToBigInt_def t nd Let_def)
qed

lemma BigIntOfString_hex:
  "isRadixString 16 h \<Longrightarrow> BigIntOfString (CHR ''0'' # CHR ''x'' # h) = Inr (int (radixValue 16 h))"
  by (simp add: BigIntOfString_def StringToBigInt_hex)

lemma getBigInt_hex:
  "isRadixString 16 h \<Longrightarrow> getBigInt (CHR ''0'' # CHR ''x'' # h) = Inr (int (radixValue 16 h))"
  by (simp add: getBigInt_def StringToBigInt_hex)

lemma BigIntOfString_decimal:
  "isDecimalString s \<Longrightarrow> BigIntOfString s = Inr (int (radixValue 10 s))"
  by (simp add: BigIntOfString_def StringToBigInt_decimal)

lemma BigIntOfString_padded_hex:
  "BigIntOfString (CHR ''0'' # CHR ''x'' # padStart k (CHR ''0'') (toString16 n)) = Inr (int n)"
  by (simp add: BigIntOfString_hex isRadixString_padStart isRadixString_toString16
      radixValue_padStart radixValue_toString16)

lemma BigIntOfString_toString10: "BigIntOfString (toString10 n) = Inr (int n)"
  by (simp add: BigIntOfString_decimal isDecimalString_toString10 radixValue_toString10)

subsection \<open>Numbers read by parseInt\<close>

lemma bitlen_bound: "n < 2 ^ k \<Longrightarrow> bitlen n \<le> k"
proof (induction k arbitrary: n)
  case 0
  then show ?case by (simp add: bitlen.simps)
next
  case (Suc k)
  show ?case
  proof (cases "n = 0")
    case True
    then show ?thesis by (simp add: bitlen.simps)
  next
    case False
    have "n div 2 < 2 ^ k" using Suc.prems by auto
    then have "bitlen (n div 2) \<le> k" by (rule Suc.IH)
    with False show ?thesis by (subst bitlen.simps) simp
  qed
qed

lemma toDouble_exact: "n < 2 ^ 53 \<Longrightarrow> toDouble n = Some n"
  using bitlen_bound [of n 53] by (simp add: toDouble_def)

lemma bitlen_lower: "0 < n \<Longrightarrow> 2 ^ bitlen n \<le> 2 * n"
proof (induction n rule: bitlen.induct)
  case (1 n)
  show ?case
  proof (cases "n div 2 = 0")
    case True
    with 1(2) have "n = 1" by auto
    then show ?thesis by (simp add: bitlen.simps)
  next
    case False
    with 1 have "2 ^ bitlen (n div 2) \<le> 2 * (n div 2)" by simp
    also have "\<dots> \<le> n" by simp
    finally have "2 * 2 ^ bitlen (n div 2) \<le> 2 * n" by simp
    with 1(2) show ?thesis by (subst bitlen.simps) simp
  qed
qed

lemma toDouble_below_2_53:
  assumes "toDouble n = Some m" "m < 2 ^ 53"
  shows "m = n"
proof (cases "bitlen n \<le> 53")
  case True
  with assms show ?thesis by (simp add: toDouble_def)
next
  case False
  define e where "e = bitlen n - 53"
  have b: "bitlen n = 53 + e" using False by (simp add: e_def)
  have n0: "0 < n" using False by (cases "n = 0") (simp_all add: bitlen.simps)
  have "2 ^ (53 + e) \<le> 2 * n" using bitlen_lower [OF n0] by (simp add: b)
  then have "(2::nat) ^ 52 * 2 ^ e \<le> n" by (simp add: power_add)
  then have q: "2 ^ 52 \<le> n div 2 ^ e"
    by (simp add: less_eq_div_iff_mult_less_eq)
  have e1: "1 \<le> e" using False by (simp add: e_def)
  then have "(2::nat) ^ 1 \<le> 2 ^ e" by (rule power_increasing) simp
  then have e2: "(2::nat) \<le> 2 ^ e" by simp
  have "(2::nat) ^ 53 = 2 ^ 52 * 2" by simp
  also have "\<dots> \<le> (n div 2 ^ e) * 2 ^ e" using q e2 by (rule mult_le_mono)
  finally have lo: "2 ^ 53 \<le> (n div 2 ^ e) * 2 ^ e" .
  then have lo': "2 ^ 53 \<le> (n div 2 ^ e + 1) * 2 ^ e"
    by (simp add: add_mult_distrib)
  from assms(1) False have "m = (n div 2 ^ e) * 2 ^ e \<or> m = (n div 2 ^ e + 1) * 2 ^ e"
    by (auto simp: toDouble_def Let_def e_def split: if_splits)
  with lo lo' assms(2) show ?thesis by auto
qed

lemma parseInt_decimal:
  assumes "isDecimalString s"
  shows "parseInt s = (case toDouble (radixValue 10 s) of None \<Rightarrow> Inf | Some m \<Rightarrow> Fin (int m))"
proof -
  from assms obtain c cs where s: "s = c # cs" and c: "isDigit c" and all: "list_all isDigit s"
    by (cases s) (auto simp: isDecimalString_def)
  have ne: "s \<noteq> []" using s by simp
  have ws: "dropWhile isWhiteSpace s = s"
    using s c by (simp add: isDigit_not_whitespace)
  have sign: "hd s \<noteq> CHR ''-''" "hd s \<noteq> CHR ''+''"
    using s c by (auto simp: isDigit_def)
  have tw: "takeWhile isDigit s = s"
    using all by (simp add: list_all_iff)
  show ?thesis
    by (simp add: parseInt_def ws sign tw ne Let_def cong: option.case_cong)
qed

lemma parseInt_exact:
  "isDecimalString s \<Longrightarrow> radixValue 10 s < 2 ^ 53 \<Longrightarrow> parseInt s = Fin (int (radixValue 10 s))"
  by (simp add: parseInt_decimal toDouble_exact)

lemma parseInt_below_1000:
  assumes "isDecimalString s" "numberLess (parseInt s) 1000"
  shows "parseInt s = Fin (int (radixValue 10 s)) \<and> radixValue 10 s < 1000"
proof -
  from assms obtain m where m: "toDouble (radixValue 10 s) = Some m" and lt: "m < 1000"
    by (auto simp: parseInt_decimal numberLess_def split: option.splits)
  from lt have "m < 2 ^ 53" by simp
  with m have "m = radixValue 10 s" by (rule toDouble_below_2_53)
  with m lt assms(1) show ?thesis by (simp add: parseInt_decimal)
qed


subsection \<open>Hex strings as bytes\<close>

lemma hexPairs_append:
  "even (length xs) \<Longrightarrow>
   hexPairs (xs @ ys) =
     (case hexPairs xs of
        None \<Rightarrow> None
      | Some bs \<Rightarrow> (case hexPairs ys of None \<Rightarrow> None | Some cs \<Rightarrow> Some (bs @ cs)))"
proof (induction xs rule: hexPairs.induct)
  case 1
  then show ?case by (simp split: option.splits)
next
  case (2 a)
  then show ?case by simp
next
  case (3 a b rest)
  then show ?case
    by (auto split: option.splits)
qed

lemma two_digits_value:
  assumes "da < 16" "db < (16::nat)"
  shows "(16 * (16 * r + da) + db) div 256 = r" "(16 * (16 * r + da) + db) mod 256 = 16 * da + db"
proof -
  have e: "16 * (16 * r + da) + db = (16 * da + db) + 256 * r" by simp
  have s: "16 * da + db < 256" using assms by simp
  show "(16 * (16 * r + da) + db) div 256 = r" "(16 * (16 * r + da) + db) mod 256 = 16 * da + db"
    using s by (simp_all only: e div_mult_self2 mod_mult_self2) simp_all
qed

lemma hexPairs_valid:
  "list_all (\<lambda>c. \<exists>d. digitValue c = Some d) xs \<Longrightarrow> length xs = 2 * k \<Longrightarrow>
   hexPairs xs = Some (bigEndian k (radixValue 16 xs))"
proof (induction k arbitrary: xs)
  case 0
  then show ?case by (simp add: radixValue_Nil)
next
  case (Suc k)
  from Suc.prems(2) have "xs \<noteq> []" by auto
  then obtain zs b where xs1: "xs = zs @ [b]" by (metis rev_exhaust)
  with Suc.prems(2) have "zs \<noteq> []" by auto
  then obtain ys a where zs: "zs = ys @ [a]" by (metis rev_exhaust)
  with xs1 have xs: "xs = ys @ [a, b]" by simp
  from xs Suc.prems have len: "length ys = 2 * k"
    and dig: "list_all (\<lambda>c. \<exists>d. digitValue c = Some d) ys" by auto
  from xs Suc.prems(1) obtain da db where da: "digitValue a = Some da" and db: "digitValue b = Some db"
    by auto
  have bounds: "da < 16" "db < 16" using da db by (auto dest: digitValue_bound)
  have IH: "hexPairs ys = Some (bigEndian k (radixValue 16 ys))"
    using dig len by (rule Suc.IH)
  have v: "radixValue 16 xs = 16 * (16 * radixValue 16 ys + da) + db"
    using da db by (simp add: xs radixValue_def digitNat_def)
  have "hexPairs xs = Some (bigEndian k (radixValue 16 ys) @ [of_nat (16 * da + db)])"
    unfolding xs using len by (simp add: hexPairs_append IH da db)
  also have "\<dots> = Some (bigEndian (Suc k) (radixValue 16 xs))"
    by (simp only: v two_digits_value [OF bounds] bigEndian.simps)
  finally show ?case .
qed

lemma getBytes_padded:
  assumes "n < 2 ^ 256"
  shows "getBytes (CHR ''0'' # CHR ''x'' # padStart 64 (CHR ''0'') (toString16 n)) = Inr (leftPad32 n)"
proof -
  have "(2::nat) ^ 256 = 16 ^ 64" by simp
  with assms have "n < 16 ^ 64" by simp
  then have "length (toString16 n) \<le> 64" by (intro length_toString16) simp_all
  then have len: "length (padStart 64 (CHR ''0'') (toString16 n)) = 2 * 32"
    by (simp add: length_padStart)
  have dig: "list_all (\<lambda>c. \<exists>d. digitValue c = Some d) (padStart 64 (CHR ''0'') (toString16 n))"
    using isRadixString_padStart [OF isRadixString_toString16, of 64 n]
    by (simp add: isRadixString_16_iff)
  show ?thesis
    by (simp add: getBytes_def hexPairs_valid [OF dig len] radixValue_padStart
        radixValue_toString16 leftPad32_def)
qed

lemma byte_digits:
  "unat (b :: byte) div 16 < 16" "unat b mod 16 < 16"
  "(of_nat (16 * (unat b div 16) + unat b mod 16) :: byte) = b"
proof -
  have "unat b < 256" using unsigned_less [of b] by simp
  then show "unat b div 16 < 16" by simp
  show "unat b mod 16 < 16" by simp
  have "16 * (unat b div 16) + unat b mod 16 = unat b" by simp
  then show "(of_nat (16 * (unat b div 16) + unat b mod 16) :: byte) = b" by simp
qed

lemma hexPairs_byteHex: "hexPairs (concat (map byteHex bs)) = Some bs"
  by (induction bs) (simp_all add: byteHex_def digitValue_hexChar byte_digits)

lemma getBytes_hexlify: "getBytes (hexlify bs) = Inr bs"
  by (simp add: getBytes_def hexlify_def hexPairs_byteHex)

lemma concat2_bytes:
  "getBytes a = Inr x \<Longrightarrow> getBytes b = Inr y \<Longrightarrow> concat2 a b = Inr (hexlify (x @ y))"
  by (simp add: concat2_def)

lemma keccak256_hexlify: "keccak256 kec (hexlify bs) = Inr (keccak256Bytes kec bs)"
  by (simp add: keccak256_def getBytes_hexlify keccak256Bytes_def)



lemma BigIntOfString_digest: "BigIntOfString (hexlifyDigest w) = Inr (int (unat w))"
  by (simp add: hexlifyDigest_def BigIntOfString_padded_hex)

lemma getBigInt_digest: "getBigInt (hexlifyDigest w) = Inr (int (unat w))"
  by (simp add: hexlifyDigest_def getBigInt_hex isRadixString_padStart isRadixString_toString16
      radixValue_padStart radixValue_toString16)

lemma startsWith_0x: "startsWith (CHR ''0'' # CHR ''x'' # s) ''0x''"
  by (simp add: startsWith_def)

lemma hash_two_words:
  assumes "getBytes a = Inr x" "getBytes b = Inr y"
  shows "bindE (concat2 a b) (keccak256 kec) = Inr (keccak256Bytes kec (x @ y))"
  using assms by (simp add: concat2_bytes bindE_def keccak256_hexlify)

subsection \<open>Short strings\<close>

lemma two_hex_digits:
  "k < 256 \<Longrightarrow> padStart 2 (CHR ''0'') (toString16 k) = [hexChar (k div 16), hexChar (k mod 16)]"
proof (cases "k < 16")
  case True
  then show ?thesis by (simp add: toString16_small padStart_def hexChar_0)
next
  case False
  assume "k < 256"
  then have "k div 16 < 16" by simp
  with False show ?thesis
    by (simp add: toString16_large toString16_small padStart_def)
qed

lemma byteHex_of_nat:
  "k < 256 \<Longrightarrow> byteHex (of_nat k) = padStart 2 (CHR ''0'') (toString16 k)"
  by (simp add: two_hex_digits byteHex_def unat_of_nat)

lemma zero_bytes_hex: "concat (map byteHex (replicate m 0)) = replicate (2 * m) (CHR ''0'')"
  by (induction m) (simp_all add: byteHex_def hexChar_0)

subsection \<open>The partial-word merge, bit by bit\<close>

lemma shiftLeft_nonneg: "0 \<le> b \<Longrightarrow> shiftLeft a b = push_bit (nat b) a"
  by (simp add: shiftLeft_def)

lemma bit_mergedSlotValue:
  assumes "0 \<le> sb" "0 \<le> ob"
  shows "bit (mergedSlotValue c v sb ob) n \<longleftrightarrow>
     (if nat ob \<le> n \<and> n < nat ob + nat sb then bit v (n - nat ob) else bit c n)"
proof -
  have m: "shiftLeft (1::int) sb - 1 = mask (nat sb)"
    using assms by (simp add: shiftLeft_nonneg mask_eq_exp_minus_1)
  show ?thesis
    unfolding mergedSlotValue_def Let_def m
    using assms by (auto simp: shiftLeft_nonneg bit_simps)
qed

lemma bit_byteAt: "bit (byteAt w j) i \<longleftrightarrow> i < 8 \<and> bit w (8 * j + i)"
proof -
  have "byteAt w j = take_bit 8 (drop_bit (8 * j) w)"
    by (simp add: byteAt_def take_bit_eq_mod drop_bit_eq_div power_mult)
  then show ?thesis by (simp add: bit_simps)
qed

lemma byteAt_merged:
  assumes "0 \<le> offset" "0 \<le> width"
  shows "byteAt (mergedSlotValue c v (width * 8) (offset * 8)) j =
     (if nat offset \<le> j \<and> j < nat offset + nat width then byteAt v (j - nat offset)
      else byteAt c j)"
proof (rule bit_eqI)
  fix i
  have sb: "nat (width * 8) = 8 * nat width" and ob: "nat (offset * 8) = 8 * nat offset"
    using assms by (simp_all add: nat_mult_distrib)
  show "bit (byteAt (mergedSlotValue c v (width * 8) (offset * 8)) j) i \<longleftrightarrow>
        bit (if nat offset \<le> j \<and> j < nat offset + nat width then byteAt v (j - nat offset)
             else byteAt c j) i"
  proof (cases "i < 8")
    case False
    then show ?thesis by (simp add: bit_byteAt)
  next
    case True
    have r: "(8 * nat offset \<le> 8 * j + i \<and> 8 * j + i < 8 * nat offset + 8 * nat width)
        \<longleftrightarrow> (nat offset \<le> j \<and> j < nat offset + nat width)"
      using True by auto
    have d: "nat offset \<le> j \<Longrightarrow> 8 * j + i - 8 * nat offset = 8 * (j - nat offset) + i"
      by simp
    show ?thesis
      using assms True
      by (simp add: bit_byteAt bit_mergedSlotValue sb ob r d)
  qed
qed

lemma merged_range:
  assumes "0 \<le> c" "c < 2 ^ 256" "0 \<le> offset" "0 \<le> width" "offset + width \<le> 32"
  shows "0 \<le> mergedSlotValue c v (width * 8) (offset * 8) \<and>
         mergedSlotValue c v (width * 8) (offset * 8) < 2 ^ 256"
proof -
  let ?m = "mergedSlotValue c v (width * 8) (offset * 8)"
  have sb: "nat (width * 8) = 8 * nat width" and ob: "nat (offset * 8) = 8 * nat offset"
    using assms by (simp_all add: nat_mult_distrib)
  have c: "take_bit 256 c = c" using assms by (simp add: take_bit_int_eq_self)
  have hi: "n < 256" if "bit c n" for n
  proof (rule ccontr)
    assume "\<not> n < 256"
    then have "bit (take_bit 256 c) n \<longleftrightarrow> False" by (simp add: bit_simps)
    with that show False by (simp add: c)
  qed
  have "take_bit 256 ?m = ?m"
  proof (rule bit_eqI)
    fix n
    have le: "8 * nat offset + 8 * nat width \<le> 256" using assms by linarith
    show "bit (take_bit 256 ?m) n \<longleftrightarrow> bit ?m n"
      using assms le
      by (auto simp: bit_simps bit_mergedSlotValue sb ob dest: hi)
  qed
  then show ?thesis by (simp add: take_bit_int_eq_self_iff)
qed

lemma BigIntOfString_padded_twice:
  "BigIntOfString (CHR ''0'' # CHR ''x'' #
      padStart k (CHR ''0'') (padStart l (CHR ''0'') (toString16 n))) = Inr (int n)"
  by (simp add: BigIntOfString_hex isRadixString_padStart isRadixString_toString16
      radixValue_padStart radixValue_toString16)

subsection \<open>Slots of array elements\<close>

lemma not_startsWith_0x_decimal: "isDecimalString d \<Longrightarrow> \<not> startsWith d ''0x''"
proof
  assume d: "isDecimalString d" and s: "startsWith d ''0x''"
  from s have e: "take (length ''0x'') d = ''0x''" by (simp only: startsWith_def)
  have "CHR ''x'' \<in> set (take (length ''0x'') d)" by (simp only: e) simp
  then have "CHR ''x'' \<in> set d" by (rule in_set_takeD)
  with d have "isDigit (CHR ''x'')" by (simp add: isDecimalString_def list_all_iff)
  then show False by (simp add: isDigit_def)
qed

lemma decimal_is_hex: "isDecimalString d \<Longrightarrow> isRadixString 16 d"
  by (auto simp: isDecimalString_def isRadixString_16_iff list_all_iff isDigit_digitValue)

lemma radixValue_16_small:
  "list_all isDigit d \<Longrightarrow> radixValue 10 d < 10 \<Longrightarrow> radixValue 16 d = radixValue 10 d"
proof (induction d rule: rev_induct)
  case Nil
  then show ?case by (simp add: radixValue_Nil)
next
  case (snoc c d)
  from snoc.prems(2) have "10 * radixValue 10 d + digitNat c < 10"
    by (simp add: radixValue_snoc)
  then have z: "radixValue 10 d = 0" by simp
  with snoc have "radixValue 16 d = 0" by simp
  with z show ?case by (simp add: radixValue_snoc)
qed

lemma calculateArraySlot_hex:
  assumes "isRadixString 16 h" "0 \<le> i"
  shows "calculateArraySlot (CHR ''0'' # CHR ''x'' # h) (Fin i)
     = Inr (CHR ''0'' # CHR ''x'' # toString16 (radixValue 16 h + nat i))"
  using assms
  by (simp add: calculateArraySlot_def startsWith_0x getBigInt_hex bindE_def BigIntOfNumber_def
      bigintToString16_def nat_add_distrib)

lemma calculateArraySlot_decimal:
  assumes "isDecimalString d" "0 \<le> i"
  shows "calculateArraySlot d (Fin i) = Inr (CHR ''0'' # CHR ''x'' # toString16 (radixValue 16 d + nat i))"
  using assms
  by (simp add: calculateArraySlot_def not_startsWith_0x_decimal getBigInt_hex decimal_is_hex
      bindE_def BigIntOfNumber_def bigintToString16_def nat_add_distrib)

lemma decimal_not_length: "isDecimalString idx \<Longrightarrow> idx \<noteq> ''length'' \<and> idx \<noteq> ''.length''"
  by (auto simp: isDecimalString_def isDigit_def)

subsection \<open>Dynamic arrays\<close>

lemma calculateDynamicArraySlot_value:
  assumes "BigIntOfString s = Inr (int b)" "b < 2 ^ 256"
    and "isDecimalString idx" "radixValue 10 idx < 2 ^ 53"
  shows "calculateDynamicArraySlot kec s (IndexString idx)
     = Inr (toString10 (unat (kec (leftPad32 b)) + radixValue 10 idx))"
proof -
  have n: "IndexString idx \<noteq> IndexString ''length''" "IndexString idx \<noteq> IndexString ''.length''"
    using decimal_not_length [OF assms(3)] by simp_all
  have k: "keccak256 kec (CHR ''0'' # CHR ''x'' # padStart 64 (CHR ''0'') (toString16 b))
      = Inr (hexlifyDigest (kec (leftPad32 b)))"
    by (simp add: keccak256_def getBytes_padded [OF assms(2)])
  have p: "parseInt idx = Fin (int (radixValue 10 idx))"
    using assms(3,4) by (rule parseInt_exact)
  have nn: "\<not> uint (kec (leftPad32 b)) + int (radixValue 10 idx) < 0"
    by (simp add: not_less add_nonneg_nonneg)
  have v: "nat (uint (kec (leftPad32 b)) + int (radixValue 10 idx))
      = unat (kec (leftPad32 b)) + radixValue 10 idx"
    by (simp add: nat_add_distrib)
  show ?thesis
    using n
    by (simp add: calculateDynamicArraySlot_def assms(1) bindE_def bigintToString16_def k
        BigIntOfString_digest p BigIntOfNumber_def bigintToString10_def nn v)
qed

lemma bigEndian_numeral:
  "bigEndian (numeral k) n = bigEndian (pred_numeral k) (n div 256) @ [of_nat (n mod 256)]"
  using bigEndian.simps(2) [of "pred_numeral k" n] by (simp only: numeral_eq_Suc [symmetric])

lemma bigEndian_1: "bigEndian 1 n = [of_nat (n mod 256)]"
  using bigEndian.simps(2) [of 0 n]
  by (simp only: bigEndian.simps(1) One_nat_def [symmetric] append_Nil)

lemma formatSlot_toString10: "formatSlot (toString10 n) = CHR ''0'' # CHR ''x'' # toString16 n"
proof -
  have "\<not> startsWith (toString10 n) ''0x''"
    by (rule not_startsWith_0x_decimal) (rule isDecimalString_toString10)
  then show ?thesis
    by (simp add: formatSlot_def BigIntOfString_toString10 bigintToString16_def)
qed

subsection \<open>The two branches of calculateMappingSlot\<close>


lemma encodeKey_decimal:
  "isDecimalString key \<Longrightarrow>
   encodeKey kec key
     = Inr (CHR ''0'' # CHR ''x'' # padStart 64 (CHR ''0'') (toString16 (radixValue 10 key)))"
  by (simp add: encodeKey_def not_startsWith_0x_decimal BigIntOfString_decimal bindE_def
      bigintToString16_def)


lemma smallSlotPath_char:
  assumes "isDecimalString slot" "radixValue 10 slot < 1000"
  shows "smallSlotPath kec slot key =
     bindE (encodeKey kec key) (\<lambda>keyBytes.
       bindE (concat2 keyBytes
                (CHR ''0'' # CHR ''x'' # padStart 64 (CHR ''0'') (toString16 (radixValue 10 slot))))
         (keccak256 kec))"
proof -
  have "radixValue 10 slot < 2 ^ 53" using assms(2) by simp
  with assms(1) have s: "parseInt slot = Fin (int (radixValue 10 slot))"
    by (rule parseInt_exact)
  show ?thesis
  proof (cases "isDecimalString key \<and> numberLess (parseInt key) 1000")
    case True
    then have k: "parseInt key = Fin (int (radixValue 10 key))"
      using parseInt_below_1000 [of key] by simp
    from True show ?thesis
      by (simp add: smallSlotPath_def s k numberToString16_def bigintToString16_def
          encodeKey_decimal bindE_def)
  next
    case False
    then show ?thesis
      by (auto simp: smallSlotPath_def s numberToString16_def bigintToString16_def)
  qed
qed

lemma generalPath_hex:
  assumes "isRadixString 16 h"
  shows "generalPath kec (CHR ''0'' # CHR ''x'' # h) key =
     bindE (encodeKey kec key) (\<lambda>keyBytes.
       bindE (concat2 keyBytes
                (CHR ''0'' # CHR ''x'' # padStart 64 (CHR ''0'') (toString16 (radixValue 16 h))))
         (keccak256 kec))"
  using assms
  by (simp add: generalPath_def startsWith_0x getBigInt_hex bindE_def bigintToString16_def
      split: sum.split)

lemma generalPath_decimal:
  assumes "isDecimalString slot"
  shows "generalPath kec slot key =
     bindE (encodeKey kec key) (\<lambda>keyBytes.
       bindE (concat2 keyBytes
                (CHR ''0'' # CHR ''x'' # padStart 64 (CHR ''0'') (toString16 (radixValue 16 slot))))
         (keccak256 kec))"
  using assms
  by (simp add: generalPath_def not_startsWith_0x_decimal getBigInt_hex decimal_is_hex bindE_def
      bigintToString16_def split: sum.split)

subsection \<open>The bytes hashed for a mapping key\<close>











subsection \<open>Code units and bytes\<close>

lemma unat_unit_below: "u < 256 \<Longrightarrow> unat (u :: codeUnit) < 256"
  by (simp add: word_less_nat_alt)

lemma charCodeHex_byte: "u < 256 \<Longrightarrow> charCodeHex u = byteHex (unitByte u)"
  using byteHex_of_nat [of "unat u"] unat_unit_below [of u]
  by (simp add: charCodeHex_def unitByte_def)

lemma code_units_hex:
  "\<forall>u\<in>set v. u < 256 \<Longrightarrow> concat (map charCodeHex v) = concat (map byteHex (map unitByte v))"
  by (induction v) (simp_all add: charCodeHex_byte)

lemma length_bytes_hex: "length (concat (map byteHex bs)) = 2 * length bs"
  by (induction bs) (simp_all add: byteHex_def)

lemma unat_codeUnit: "unat (of_nat (of_char c) :: codeUnit) = of_char c"
proof -
  have "(of_char c :: nat) < 256" by simp
  then have "(of_char c :: nat) < 65536" by linarith
  then show ?thesis by (simp add: unat_of_nat)
qed

lemma codeUnits_below: "\<forall>u\<in>set (codeUnits s). u < 256"
proof -
  have "(of_nat (of_char c) :: codeUnit) < 256" for c
  proof -
    have "(of_char c :: nat) < 256" by simp
    then show ?thesis by (simp add: word_less_nat_alt unat_codeUnit)
  qed
  then show ?thesis by (auto simp: codeUnits_def)
qed

lemma ascii_utf8:
  "\<forall>c\<in>set s. (of_char c :: nat) < 128 \<Longrightarrow> toUtf8Bytes s = map unitByte (codeUnits s)"
  by (induction s) (simp_all add: toUtf8Bytes_def codeUnits_def unitByte_def unat_codeUnit)

lemma encodeStringForStorage_bytes:
  assumes len: "length v \<le> 31" and small: "\<forall>u\<in>set v. u < 256"
  shows "encodeStringForStorage v =
        Inr (hexlify (map unitByte v @ replicate (31 - length v) 0 @ [of_nat (2 * length v)]))"
proof -
  have chars: "concat (map charCodeHex v) = concat (map byteHex (map unitByte v))"
    using small by (rule code_units_hex)
  have pad: "62 - 2 * length v = 2 * (31 - length v)" using len by simp
  define lb :: byte where "lb = of_nat (2 * length v)"
  have "2 * length v < 256" using len by simp
  then have "byteHex (of_nat (2 * length v)) = padStart 2 (CHR ''0'') (toString16 (2 * length v))"
    by (rule byteHex_of_nat)
  then have last: "padStart 2 (CHR ''0'') (toString16 (length v * 2)) = byteHex lb"
    by (simp only: lb_def mult.commute)
  have enc: "padEnd 62 (CHR ''0'') (concat (map charCodeHex v)) =
      concat (map byteHex (map unitByte v)) @ concat (map byteHex (replicate (31 - length v) 0))"
    by (simp only: chars padEnd_def length_bytes_hex length_map pad zero_bytes_hex)
  have "encodeStringForStorage v =
        Inr (''0x'' @ padEnd 62 (CHR ''0'') (concat (map charCodeHex v)) @
               padStart 2 (CHR ''0'') (toString16 (length v * 2)))"
    using len by (simp add: encodeStringForStorage_def Let_def)
  also have "\<dots> = Inr (hexlify (map unitByte v @ replicate (31 - length v) 0 @ [lb]))"
    unfolding enc last hexlify_def by simp
  finally show ?thesis by (simp only: lb_def)
qed

subsection \<open>Address keys\<close>



section \<open>The claims\<close>

text \<open>
  Claim C7. For every 32-byte current word, encoded value, offset and width with
  offset + width at most 32, \<open>setPartialSlotValue\<close> reads the slot and writes back a
  32-byte word in which byte \<open>j\<close> (counted from the low-order end) is byte \<open>j - offset\<close> of
  the encoded value when \<open>offset \<le> j < offset + width\<close>, and byte \<open>j\<close> of the current
  word otherwise.
\<close>

theorem C7_partial_word_merge:
  assumes "getStorageAt hre a slot = Inr cur" "BigIntOfString cur = Inr current"
    and "0 \<le> current" "current < 2 ^ 256"
    and "BigIntOfString encoded = Inr v"
    and "0 \<le> offset" "0 \<le> width" "offset + width \<le> 32" "j < 32"
  shows "let merged = mergedSlotValue current v (width * 8) (offset * 8);
             written = ''0x'' @ padStart 64 (CHR ''0'') (toString16 (nat merged))
         in fst (setPartialSlotValue hre a slot encoded offset (Fin width)) =
              [eth_getStorageAt a slot, hardhat_setStorageAt a slot written]
            \<and> BigIntOfString written = Inr merged
            \<and> getBytes written = Inr (leftPad32 (nat merged))
            \<and> byteAt merged j =
                (if nat offset \<le> j \<and> j < nat (offset + width) then byteAt v (j - nat offset)
                 else byteAt current j)"
proof -
  let ?m = "mergedSlotValue current v (width * 8) (offset * 8)"
  from merged_range [OF assms(3,4,6,7,8), of v] have r: "0 \<le> ?m" "?m < 2 ^ 256" by auto
  then have n: "nat ?m < 2 ^ 256" by (simp add: nat_less_iff)
  have w: "bigintToString16 ?m = toString16 (nat ?m)" using r by (simp add: bigintToString16_def)
  have calls: "fst (setPartialSlotValue hre a slot encoded offset (Fin width)) =
      [eth_getStorageAt a slot,
       hardhat_setStorageAt a slot (CHR ''0'' # CHR ''x'' # padStart 64 (CHR ''0'') (toString16 (nat ?m)))]"
    using assms(1,2,5)
    by (simp add: setPartialSlotValue_def partialSlotResult_def bindE_def BigIntOfNumber_def
        numberTimes_def w Let_def)
  have parse: "BigIntOfString (CHR ''0'' # CHR ''x'' # padStart 64 (CHR ''0'') (toString16 (nat ?m)))
      = Inr ?m"
    using r by (simp add: BigIntOfString_padded_hex)
  have bytes: "byteAt ?m j =
      (if nat offset \<le> j \<and> j < nat (offset + width) then byteAt v (j - nat offset)
       else byteAt current j)"
    using assms(6,7) by (simp add: byteAt_merged nat_add_distrib)
  show ?thesis
    using calls parse bytes getBytes_padded [OF n] by (simp add: Let_def)
qed

theorem C7_witness:
  "fst (setPartialSlotValue ffBackend ''0xabc'' ''0x1''
          ''0x0000000000000000000000000000000000000000000000000000000000000007'' 1 (Fin 1))
     = [eth_getStorageAt ''0xabc'' ''0x1'',
        hardhat_setStorageAt ''0xabc'' ''0x1''
          ''0x00000000000000000000000000000000000000000000000000000000000007ff'']
   \<and> byteAt (mergedSlotValue 255 7 8 8) 1 = 7
   \<and> byteAt (mergedSlotValue 255 7 8 8) 0 = 255"
proof -
  have g: "getStorageAt ffBackend ''0xabc'' ''0x1'' =
      Inr ''0x00000000000000000000000000000000000000000000000000000000000000ff''"
    by (simp add: ffBackend_def)
  have h1: "BigIntOfString ''0x00000000000000000000000000000000000000000000000000000000000000ff''
      = Inr 255"
    by (simp add: js_defs)
  have h2: "BigIntOfString ''0x0000000000000000000000000000000000000000000000000000000000000007''
      = Inr 7"
    by (simp add: js_defs)
  have m: "mergedSlotValue 255 7 8 8 = 2047"
    by (simp add: mergedSlotValue_def shiftLeft_def)
  have t: "toString16 2047 = ''7ff''"
    by (simp add: toString16.simps hexChar_def)
  from C7_partial_word_merge [OF g h1 _ _ h2, of 1 1 1] C7_partial_word_merge [OF g h1 _ _ h2, of 1 1 0]
  show ?thesis
    by (simp add: Let_def m t padStart_def replicate_numeral_eval byteAt_def)
qed

text \<open>
  Claim C3, as stated: \<open>setSlotValue\<close> reads, merges and writes exactly when the offset is
  not 0 or the width is not 32. It is false: \<open>simpleBool\<close> of TestContract is one byte wide
  at offset 0 of slot 1, and setting it sends a single \<open>hardhat_setStorageAt\<close> of a whole
  word, with no read before it.
\<close>

theorem C3_counterexample:
  "setState byteSumHash noLayouts ffBackend TestContractLayout ''simpleBool'' [] (Bool False) ''0xabc''
     = ([hardhat_setStorageAt ''0xabc'' ''0x1''
           ''0x0000000000000000000000000000000000000000000000000000000000000000''], True)"
  by (simp add: js_defs layout_defs slot_defs data_defs ffBackend_def)

text \<open>
  Claim C3, amended. \<open>setSlotValue\<close> reads the slot first exactly when the location has an
  offset greater than 0; then, when the read answers and the words are read as numbers,
  it writes the merged word. In every other case (no offset, or offset 0, whatever the
  width) it sends one \<open>hardhat_setStorageAt\<close> of the encoded word and no read.
\<close>

theorem C3_read_merge_write_iff_positive_offset:
  assumes "encodeValueForStorage v location = Inr w"
  shows "(loc_offset location = None \<or> (\<exists>off. loc_offset location = Some off \<and> off \<le> 0)
            \<longrightarrow> fst (setSlotValue hre location v a) =
                  [hardhat_setStorageAt a (formatSlot (loc_slot location)) w])
       \<and> ((\<exists>off. loc_offset location = Some off \<and> 0 < off)
            \<longrightarrow> (\<exists>rest. fst (setSlotValue hre location v a) =
                    eth_getStorageAt a (formatSlot (loc_slot location)) # rest))
       \<and> (\<forall>off cur r. loc_offset location = Some off \<and> 0 < off
              \<and> getStorageAt hre a (formatSlot (loc_slot location)) = Inr cur
              \<and> partialSlotResult cur w off (loc_size location) = Inr r
            \<longrightarrow> fst (setSlotValue hre location v a) =
                  [eth_getStorageAt a (formatSlot (loc_slot location)),
                   hardhat_setStorageAt a (formatSlot (loc_slot location)) r])"
  using assms
  by (auto simp: setSlotValue_def setPartialSlotValue_def Let_def split: sum.splits)

theorem C3_witness:
  "fst (setSlotValue ffBackend (plainLocation ''1'' (Some 0) (Fin 1) ''t_bool'') (Bool True) ''0xabc'')
     = [hardhat_setStorageAt ''0xabc'' ''0x1''
          ''0x0000000000000000000000000000000000000000000000000000000000000001'']
   \<and> (\<exists>rest. fst (setSlotValue ffBackend (plainLocation ''1'' (Some 1) (Fin 20) ''t_address'')
                      (Str ''0x1234567890123456789012345678901234567890'') ''0xabc'')
              = eth_getStorageAt ''0xabc'' ''0x1'' # rest)"
proof -
  have e1: "encodeValueForStorage (Bool True) (plainLocation ''1'' (Some 0) (Fin 1) ''t_bool'')
      = Inr ''0x0000000000000000000000000000000000000000000000000000000000000001''"
    by (simp add: encodeValueForStorage_def plainLocation_def startsWith_def
        encodeBoolForStorage_def truthy_def)
  have e2: "encodeValueForStorage (Str ''0x1234567890123456789012345678901234567890'')
        (plainLocation ''1'' (Some 1) (Fin 20) ''t_address'')
      = Inr ''0x0000000000000000000000001234567890123456789012345678901234567890''"
    by (simp add: encodeValueForStorage_def plainLocation_def startsWith_def
        encodeAddressForStorage_def toLowerCase_def toLowerChar_def padStart_def
        replicate_numeral_eval)
  have f: "formatSlot ''1'' = ''0x1''"
    by (simp add: js_defs formatSlot_def)
  from C3_read_merge_write_iff_positive_offset [OF e1, of ffBackend "''0xabc''"]
    C3_read_merge_write_iff_positive_offset [OF e2, of ffBackend "''0xabc''"]
  show ?thesis
    by (simp add: plainLocation_def f)
qed

text \<open>
  Claim C4, as stated: encoding a number that does not fit the width of the cell fails
  with an overflow error. It is false: the code has no such check. 256 is encoded for a
  cell one byte wide (\<open>uint8\<close>) as the word \<open>0x...0100\<close>, and 128 for an \<open>int8\<close> cell as
  \<open>0x...80\<close>.
\<close>

theorem C4_counterexample:
  "encodeValueForStorage (Num (Fin 256)) (plainLocation ''0'' None (Fin 1) ''t_uint8'')
     = Inr ''0x0000000000000000000000000000000000000000000000000000000000000100''
   \<and> encodeValueForStorage (Num (Fin 128)) (plainLocation ''0'' None (Fin 1) ''t_int8'')
     = Inr ''0x0000000000000000000000000000000000000000000000000000000000000080''"
  by (simp add: js_defs slot_defs plainLocation_def replicate_numeral_eval)

text \<open>
  Claim C4, amended. Encoding a number never fails for its size and never reports an
  overflow: a non-negative value is written out in full whatever the width of the cell
  (the word read back as a number is the value itself), and a negative value of a signed
  type is reduced modulo \<open>2 ^ (8 * width)\<close>.
\<close>

theorem C4_numbers_are_not_range_checked:
  assumes "BigInt v = Inr n"
  shows "(0 \<le> n \<longrightarrow> BigIntOfString (encodeUintForStorage v sz) = Inr n)
       \<and> (0 \<le> n \<and> 0 \<le> w \<longrightarrow> bindE (encodeIntForStorage v (Fin w)) BigIntOfString = Inr n)
       \<and> (n < 0 \<and> 0 \<le> w \<longrightarrow>
            bindE (encodeIntForStorage v (Fin w)) BigIntOfString = Inr (n mod 2 ^ nat (w * 8)))"
proof (intro conjI impI)
  assume "0 \<le> n"
  then show "BigIntOfString (encodeUintForStorage v sz) = Inr n"
    using assms by (simp add: encodeUintForStorage_def bigintToString16_def BigIntOfString_padded_hex)
next
  assume "0 \<le> n \<and> 0 \<le> w"
  then show "bindE (encodeIntForStorage v (Fin w)) BigIntOfString = Inr n"
    using assms
    by (simp add: encodeIntForStorage_def bindE_def numberTimes_def padStartNumber_def
        bigintToString16_def BigIntOfString_padded_twice)
next
  assume a: "n < 0 \<and> 0 \<le> w"
  have m: "shiftLeft (1::int) (w * 8) - 1 = mask (nat (w * 8))"
    using a by (simp add: shiftLeft_def mask_eq_exp_minus_1)
  have r: "n AND mask (nat (w * 8)) = n mod 2 ^ nat (w * 8)"
    by (simp flip: take_bit_eq_mask add: take_bit_eq_mod)
  have nn: "\<not> n mod 2 ^ nat (w * 8) < 0" by (simp add: not_less)
  show "bindE (encodeIntForStorage v (Fin w)) BigIntOfString = Inr (n mod 2 ^ nat (w * 8))"
    using assms a
    by (simp add: encodeIntForStorage_def Let_def m nn bindE_def numberTimes_def BigIntOfNumber_def
        padStartNumber_def r bigintToString16_def BigIntOfString_padded_twice)
qed

theorem C4_witness:
  "BigIntOfString (encodeUintForStorage (Big 256) (Fin 1)) = Inr 256
   \<and> bindE (encodeIntForStorage (Big 128) (Fin 1)) BigIntOfString = Inr 128
   \<and> bindE (encodeIntForStorage (Big (- 129)) (Fin 1)) BigIntOfString = Inr 127"
  using C4_numbers_are_not_range_checked [of "Big 256" 256 "Fin 1" 1]
    C4_numbers_are_not_range_checked [of "Big 128" 128 "Fin 1" 1]
    C4_numbers_are_not_range_checked [of "Big (- 129)" "- 129" "Fin 1" 1]
  by (simp add: BigInt_def)

text \<open>
  Claim C8, as stated: whenever the encoding of the value fails, nothing is sent to the
  backend. It is false for unsigned integers: \<open>encodeUintForStorage\<close> catches the error
  of \<open>BigInt\<close> and returns the zero word, which is then written. Setting \<open>simpleUint\<close> to
  \<open>"abc"\<close> writes zero to slot 0 and reports success.
\<close>

theorem C8_counterexample:
  "BigInt (Str ''abc'') = Inl SyntaxError
   \<and> setState byteSumHash noLayouts ffBackend TestContractLayout ''simpleUint'' [] (Str ''abc'')
        ''0xabc''
     = ([hardhat_setStorageAt ''0xabc'' ''0x0''
           ''0x0000000000000000000000000000000000000000000000000000000000000000''], True)"
  by (simp add: js_defs layout_defs slot_defs data_defs ffBackend_def replicate_numeral_eval)

text \<open>
  Claim C8, amended. Whenever the resolution of the path throws, or
  \<open>encodeValueForStorage\<close> throws, nothing is sent to the backend and \<open>setState\<close> answers
  \<open>false\<close>. (A value that \<open>BigInt\<close> cannot read is not such a case for an unsigned
  integer, an enum or a type the dispatch does not know: there it is encoded as zero.)
\<close>

theorem C8_errors_abort_before_backend:
  "(getStorageLocation kec hreTypes storageLayout varName path = Inl e \<longrightarrow>
      setState kec hreTypes hre storageLayout varName path v a = ([], False))
   \<and> (encodeValueForStorage v location = Inl e \<longrightarrow>
        setSlotValue hre location v a = ([], Inl e))
   \<and> (getStorageLocation kec hreTypes storageLayout varName path = Inr location
        \<and> encodeValueForStorage v location = Inl e \<longrightarrow>
        setState kec hreTypes hre storageLayout varName path v a = ([], False))"
  by (simp add: setState_def setSlotValue_def)

theorem C8_witness:
  "setState byteSumHash noLayouts ffBackend TestContractLayout ''missing'' [] (Bool True) ''0xabc''
     = ([], False)
   \<and> setSlotValue ffBackend (plainLocation ''2'' (Some 0) (Fin 32) ''t_string_storage'')
        (Str ''abcdefghijklmnopqrstuvwxyz012345'') ''0xabc'' = ([], Inl LongStringsNotSupported)"
proof -
  have r: "getStorageLocation byteSumHash noLayouts TestContractLayout ''missing'' []
      = Inl VariableNotFound"
    by (simp add: getStorageLocation_def findVariableLocation_def TestContractLayout_def bindE_def)
  have s: "encodeValueForStorage (Str ''abcdefghijklmnopqrstuvwxyz012345'')
        (plainLocation ''2'' (Some 0) (Fin 32) ''t_string_storage'') = Inl LongStringsNotSupported"
    by (simp add: encodeValueForStorage_def plainLocation_def startsWith_def
        encodeStringForStorage_def codeUnits_def)
  from C8_errors_abort_before_backend [of byteSumHash noLayouts TestContractLayout "''missing''" "[]"
      VariableNotFound ffBackend "Bool True" "''0xabc''"]
    C8_errors_abort_before_backend [of _ _ _ _ _ LongStringsNotSupported ffBackend
      "Str ''abcdefghijklmnopqrstuvwxyz012345''" "''0xabc''"
      "plainLocation ''2'' (Some 0) (Fin 32) ''t_string_storage''"]
  show ?thesis by (simp add: r s)
qed

text \<open>
  Claim C1, at its own example. \<open>person\<close> of TestContract is a struct at slot 5 whose
  member \<open>age\<close> has relative slot 1 and offset 0 (the repository's test reads it at slot
  6). \<open>findVariableLocation\<close> computes the member's slot from \<open>member.offset\<close>, never from
  \<open>member.slot\<close>, so the path \<open>["age"]\<close> resolves to slot 5, the slot of the struct
  itself. The struct that is the value of a mapping goes through
  \<open>calculateRelativeSlot\<close>, which adds \<open>member.slot\<close>: there \<open>age\<close> is one slot after the
  base (\<open>0x101\<close> after \<open>0x100\<close>).
\<close>

theorem C1_age_resolves_to_the_struct_slot:
  "getStorageLocation byteSumHash noLayouts TestContractLayout ''person'' [''age'']
     = Inr (plainLocation ''5'' (Some 0) (Fin 32) ''t_uint256'')
   \<and> formatSlot ''5'' = ''0x5''
   \<and> calculateRelativeSlot ''0x100'' ''1'' = Inr ''0x101''"
  by (simp add: js_defs layout_defs slot_defs data_defs)

text \<open>
  Claim C9, as stated: the element slot of a fixed-size array is base plus index reduced
  modulo \<open>2 ^ 256\<close>. It is false: the sum is a bigint and is never reduced. From the base
  slot \<open>2 ^ 256 - 1\<close>, index 1 gives the slot \<open>2 ^ 256\<close>, a number of 257 bits, not 0.
\<close>

theorem C9_counterexample:
  "calculateArraySlot ''0xffffffffffffffffffffffffffffffffffffffffffffffffffffffffffffffff'' (Fin 1)
     = Inr ''0x10000000000000000000000000000000000000000000000000000000000000000''
   \<and> getBigInt ''0x10000000000000000000000000000000000000000000000000000000000000000''
     = Inr (2 ^ 256)"
  by (simp add: js_defs calculateArraySlot_def)

text \<open>
  Claim C9, amended. For every base slot written in hexadecimal with the prefix 0x (as
  the resolvers write the slots they derive), or in decimal digits with a value below 10,
  and for every integer index \<open>i\<close> from 0 on, \<open>calculateArraySlot\<close> gives the base plus \<open>i\<close>,
  one slot per element, as an unbounded integer: the sum is not reduced modulo \<open>2 ^ 256\<close>.
  No bounds check is applied: for an array whose type identifier \<open>t_array(element)...\<close>
  does not contain \<open>dyn\<close>, and an index written in decimal digits with a value below
  \<open>2 ^ 53\<close> (which \<open>parseInt\<close> reads exactly), \<open>resolveArrayPath\<close> returns the slot that
  \<open>calculateArraySlot\<close> computes for that index, whatever the declared length of the
  array.
\<close>

theorem C9_fixed_array_slot:
  "(isRadixString 16 h \<and> 0 \<le> i \<longrightarrow>
      calculateArraySlot (''0x'' @ h) (Fin i) = Inr (''0x'' @ toString16 (radixValue 16 h + nat i))
      \<and> bindE (calculateArraySlot (''0x'' @ h) (Fin i)) getBigInt = Inr (int (radixValue 16 h) + i))
   \<and> (isDecimalString d \<and> radixValue 10 d < 10 \<and> 0 \<le> i \<longrightarrow>
        calculateArraySlot d (Fin i) = Inr (''0x'' @ toString16 (radixValue 10 d + nat i)))
   \<and> (\<not> (includesStr ty ''t_array'' \<and> includesStr ty ''dyn'')
        \<and> regexSearch arrayPatternAt ty = Some elementType \<and> elementType \<noteq> []
        \<and> isDecimalString idx \<and> radixValue 10 idx < 2 ^ 53
        \<and> calculateArraySlot slot (Fin (int (radixValue 10 idx))) = Inr elementSlot \<longrightarrow>
        resolveArrayPath kec hre (VarLocation nm slot off sz ty ch si pa) [idx]
          = Inr (plainLocation elementSlot None (getSizeForType elementType) elementType))"
proof (intro conjI impI)
  assume a: "isRadixString 16 h \<and> 0 \<le> i"
  then show "calculateArraySlot (''0x'' @ h) (Fin i) = Inr (''0x'' @ toString16 (radixValue 16 h + nat i))"
    by (simp add: calculateArraySlot_hex)
  from a show "bindE (calculateArraySlot (''0x'' @ h) (Fin i)) getBigInt = Inr (int (radixValue 16 h) + i)"
    by (simp add: calculateArraySlot_hex bindE_def getBigInt_hex isRadixString_toString16
        radixValue_toString16)
next
  assume "isDecimalString d \<and> radixValue 10 d < 10 \<and> 0 \<le> i"
  then show "calculateArraySlot d (Fin i) = Inr (''0x'' @ toString16 (radixValue 10 d + nat i))"
    by (simp add: calculateArraySlot_decimal radixValue_16_small isDecimalString_def)
next
  assume a: "\<not> (includesStr ty ''t_array'' \<and> includesStr ty ''dyn'')
        \<and> regexSearch arrayPatternAt ty = Some elementType \<and> elementType \<noteq> []
        \<and> isDecimalString idx \<and> radixValue 10 idx < 2 ^ 53
        \<and> calculateArraySlot slot (Fin (int (radixValue 10 idx))) = Inr elementSlot"
  then have p: "parseInt idx = Fin (int (radixValue 10 idx))"
    by (simp add: parseInt_exact)
  from a have n: "idx \<noteq> ''length''" "idx \<noteq> ''.length''"
    using decimal_not_length [of idx] by auto
  from a n show "resolveArrayPath kec hre (VarLocation nm slot off sz ty ch si pa) [idx]
          = Inr (plainLocation elementSlot None (getSizeForType elementType) elementType)"
    by (auto simp: resolveArrayPath_def p)
qed

theorem C9_witness:
  "calculateArraySlot ''0x7'' (Fin 1000) = Inr ''0x3ef''
   \<and> calculateArraySlot ''7'' (Fin 1000) = Inr ''0x3ef''
   \<and> resolveArrayPath byteSumHash noLayouts
        (VarLocation ''topUsers'' ''7'' (Some 0) (Fin 160) ''t_array(t_address)5_storage''
           None None None) [''1000'']
      = Inr (plainLocation ''0x3ef'' None (Fin 32) ''t_address'')"
proof -
  have c: "calculateArraySlot ''7'' (Fin (int (radixValue 10 ''1000''))) = Inr ''0x3ef''"
    by (simp add: js_defs calculateArraySlot_def)
  have t: "regexSearch arrayPatternAt ''t_array(t_address)5_storage'' = Some ''t_address''"
    by (simp add: arrayPatternAt_def startsWith_def isLineTerminator_def)
  have d: "\<not> (includesStr ''t_array(t_address)5_storage'' ''t_array''
              \<and> includesStr ''t_array(t_address)5_storage'' ''dyn'')"
    by (simp add: includesStr_def startsWith_def)
  have v: "radixValue 10 ''1000'' = 1000" "radixValue 16 ''7'' = 7" "radixValue 10 ''7'' = 7"
    by (simp_all add: radixValue_def digitNat_def digitValue_def)
  have s: "toString16 1007 = ''3ef''"
    by (simp add: toString16.simps hexChar_def)
  have i: "isDecimalString ''1000''" "isDecimalString ''7''" "isRadixString 16 ''7''"
    by (simp_all add: isDecimalString_def isDigit_def isRadixString_def digitValue_def)
  from C9_fixed_array_slot [of "''7''" 1000 "''7''" "''t_array(t_address)5_storage''" "''t_address''"
      "''1000''" "''7''" "''0x3ef''" byteSumHash noLayouts "''topUsers''" "Some 0" "Fin 160"
      None None None]
  show ?thesis
    by (simp add: c t d v s i getSizeForType_def startsWith_def del: regexSearch.simps)
qed

text \<open>
  Claim C5, as stated: the element slot of a dynamic array is \<open>keccak256(leftPad32(s)) + i\<close>
  modulo \<open>2 ^ 256\<close>. It is false: the sum is never reduced. With the index \<open>2 ^ 256\<close> (a
  number \<open>parseInt\<close> reads exactly) the slot computed for the array at slot 3 is the hash
  plus \<open>2 ^ 256\<close>, here \<open>35 + 2 ^ 256\<close>, where the claim gives the hash itself, 35.
\<close>

theorem C5_counterexample:
  "keccak256Bytes byteSumHash (leftPad32 3)
     = ''0x0000000000000000000000000000000000000000000000000000000000000023''
   \<and> bindE (calculateDynamicArraySlot byteSumHash ''3''
        (IndexString ''115792089237316195423570985008687907853269984665640564039457584007913129639936''))
        BigIntOfString
     = Inr (35 + 2 ^ 256)"
proof -
  have h: "keccak256Bytes byteSumHash (leftPad32 3)
     = ''0x0000000000000000000000000000000000000000000000000000000000000023''"
    by (simp add: keccak256Bytes_def hexlifyDigest_def byteSumHash_def leftPad32_def
        bigEndian_numeral bigEndian_1 toString16.simps hexChar_def padStart_def
        replicate_numeral_eval)
  have p: "parseInt ''115792089237316195423570985008687907853269984665640564039457584007913129639936''
      = Fin (2 ^ 256)"
    by (simp add: parseInt_def isWhiteSpace_def isDigit_def radixValue_def digitNat_def
        digitValue_def toDouble_def bitlen.simps)
  have k: "keccak256 byteSumHash ''0x0000000000000000000000000000000000000000000000000000000000000003''
      = Inr ''0x0000000000000000000000000000000000000000000000000000000000000023''"
    using getBytes_padded [of 3] h
    by (simp add: keccak256_def keccak256Bytes_def toString16.simps hexChar_def padStart_def
        replicate_numeral_eval)
  have b3: "BigIntOfString ''3'' = Inr 3"
    by (simp add: js_defs)
  have b: "BigIntOfString ''0x0000000000000000000000000000000000000000000000000000000000000023''
      = Inr 35"
    by (simp add: js_defs)
  have s3: "CHR ''0'' # CHR ''x'' # padStart 64 (CHR ''0'') (bigintToString16 3)
     = ''0x0000000000000000000000000000000000000000000000000000000000000003''"
    by (simp add: bigintToString16_def toString16.simps hexChar_def padStart_def
        replicate_numeral_eval)
  have c: "calculateDynamicArraySlot byteSumHash ''3''
        (IndexString ''115792089237316195423570985008687907853269984665640564039457584007913129639936'')
      = Inr (toString10 (35 + 2 ^ 256))"
    by (simp add: calculateDynamicArraySlot_def p k b b3 s3 bindE_def BigIntOfNumber_def
        bigintToString10_def)
  have r: "BigIntOfString (toString10 (35 + 2 ^ 256)) = Inr (35 + 2 ^ 256)"
    using BigIntOfString_toString10 [of "35 + 2 ^ 256"] by simp
  show ?thesis
    by (simp only: h c r bindE_def sum.case)
qed

text \<open>
  Claim C5, amended. For every dynamic array declared at slot \<open>s\<close>, the length is addressed
  at slot \<open>s\<close> itself as a full word (offset 0, size 32, type \<open>t_uint256\<close>). For every index
  \<open>i\<close> below \<open>2 ^ 53\<close> the element slot is \<open>keccak256(leftPad32(s)) + i\<close> as an unbounded
  integer, a decimal string that \<open>formatSlot\<close> turns into hexadecimal for the backend: the
  sum is not reduced modulo \<open>2 ^ 256\<close>.
\<close>

theorem C5_dynamic_array_slots:
  "resolveArrayPath kec hre varLocation [''length'']
     = Inr (plainLocation (vl_slot varLocation) (Some 0) (Fin 32) ''t_uint256'')
   \<and> (BigIntOfString s = Inr (int b) \<and> b < 2 ^ 256
        \<and> isDecimalString idx \<and> radixValue 10 idx < 2 ^ 53 \<longrightarrow>
        calculateDynamicArraySlot kec s (IndexString idx)
          = Inr (toString10 (unat (kec (leftPad32 b)) + radixValue 10 idx))
        \<and> formatSlot (toString10 (unat (kec (leftPad32 b)) + radixValue 10 idx))
          = ''0x'' @ toString16 (unat (kec (leftPad32 b)) + radixValue 10 idx))
   \<and> (includesStr ty ''t_array'' \<and> includesStr ty ''dyn''
        \<and> regexSearch arrayPatternAt ty = Some elementType \<and> elementType \<noteq> []
        \<and> idx \<noteq> ''length'' \<and> idx \<noteq> ''.length''
        \<and> calculateDynamicArraySlot kec slot (IndexString idx) = Inr elementSlot \<longrightarrow>
        resolveArrayPath kec hre (VarLocation nm slot off sz ty ch si pa) [idx]
          = Inr (plainLocation elementSlot None (getSizeForType elementType) elementType))"
proof (intro conjI impI)
  show "resolveArrayPath kec hre varLocation [''length'']
     = Inr (plainLocation (vl_slot varLocation) (Some 0) (Fin 32) ''t_uint256'')"
    by (simp add: resolveArrayPath_def)
next
  assume a: "BigIntOfString s = Inr (int b) \<and> b < 2 ^ 256
        \<and> isDecimalString idx \<and> radixValue 10 idx < 2 ^ 53"
  then show "calculateDynamicArraySlot kec s (IndexString idx)
          = Inr (toString10 (unat (kec (leftPad32 b)) + radixValue 10 idx))"
    by (simp add: calculateDynamicArraySlot_value)
  show "formatSlot (toString10 (unat (kec (leftPad32 b)) + radixValue 10 idx))
          = ''0x'' @ toString16 (unat (kec (leftPad32 b)) + radixValue 10 idx)"
    by (simp add: formatSlot_toString10)
next
  assume "includesStr ty ''t_array'' \<and> includesStr ty ''dyn''
        \<and> regexSearch arrayPatternAt ty = Some elementType \<and> elementType \<noteq> []
        \<and> idx \<noteq> ''length'' \<and> idx \<noteq> ''.length''
        \<and> calculateDynamicArraySlot kec slot (IndexString idx) = Inr elementSlot"
  then show "resolveArrayPath kec hre (VarLocation nm slot off sz ty ch si pa) [idx]
          = Inr (plainLocation elementSlot None (getSizeForType elementType) elementType)"
    by (auto simp: resolveArrayPath_def)
qed

theorem C5_witness:
  "resolveArrayPath byteSumHash noLayouts
      (VarLocation ''uintArray'' ''3'' (Some 0) (Fin 32) ''t_array(t_uint256)dyn_storage''
         None None None) [''length'']
     = Inr (plainLocation ''3'' (Some 0) (Fin 32) ''t_uint256'')
   \<and> calculateDynamicArraySlot byteSumHash ''3'' (IndexString ''1'') = Inr (toString10 36)
   \<and> formatSlot (toString10 36) = ''0x24''
   \<and> resolveArrayPath byteSumHash noLayouts
        (VarLocation ''uintArray'' ''3'' (Some 0) (Fin 32) ''t_array(t_uint256)dyn_storage''
           None None None) [''1'']
      = Inr (plainLocation (toString10 36) None (Fin 32) ''t_uint256'')"
proof -
  have b: "BigIntOfString ''3'' = Inr (int 3)"
    by (simp add: js_defs)
  have i: "isDecimalString ''1''" "radixValue 10 ''1'' = 1"
    by (simp_all add: isDecimalString_def isDigit_def radixValue_def digitNat_def digitValue_def)
  have h: "unat (byteSumHash (leftPad32 3)) = 35"
    by (simp add: byteSumHash_def leftPad32_def bigEndian_numeral bigEndian_1)
  have t: "regexSearch arrayPatternAt ''t_array(t_uint256)dyn_storage'' = Some ''t_uint256''"
    by (simp add: arrayPatternAt_def startsWith_def isLineTerminator_def)
  have d: "includesStr ''t_array(t_uint256)dyn_storage'' ''t_array''"
    "includesStr ''t_array(t_uint256)dyn_storage'' ''dyn''"
    by (simp_all add: includesStr_def startsWith_def)
  have s: "toString16 36 = ''24''"
    by (simp add: toString16.simps hexChar_def)
  note T = C5_dynamic_array_slots [of byteSumHash noLayouts
      "VarLocation ''uintArray'' ''3'' (Some 0) (Fin 32) ''t_array(t_uint256)dyn_storage'' None None None"
      "''3''" 3 "''1''" "''t_array(t_uint256)dyn_storage''" "''t_uint256''" "''3''" "toString10 36"
      "''uintArray''" "Some 0" "Fin 32" None None None]
  from T show ?thesis
    by (simp add: b i h t d s getSizeForType_def startsWith_def del: regexSearch.simps)
qed

text \<open>
  Claim C10, as stated: for a slot given in decimal digits with a value below 1000, the
  branch for small slots computes the hash the general branch would compute for the same
  slot and key. It is false from 10 on: the general branch puts 0x before the digits and
  reads them in base 16. For the slot \<open>"10"\<close> and the key \<open>"1"\<close> the first hashes the key
  with slot 10, the second with slot 16; with the hash that adds the bytes to their number
  the results are \<open>0x4b\<close> and \<open>0x51\<close>.
\<close>

theorem C10_counterexample:
  "smallSlotPath byteSumHash ''10'' ''1''
     = Inr ''0x000000000000000000000000000000000000000000000000000000000000004b''
   \<and> generalPath byteSumHash ''10'' ''1''
     = Inr ''0x0000000000000000000000000000000000000000000000000000000000000051''"
proof -
  have d: "isDecimalString ''10''" "isDecimalString ''1''"
    by (simp_all add: isDecimalString_def isDigit_def)
  have v: "radixValue 10 ''10'' = 10" "radixValue 16 ''10'' = 16" "radixValue 10 ''1'' = 1"
    by (simp_all add: radixValue_def digitNat_def digitValue_def)
  have k: "encodeKey byteSumHash ''1''
      = Inr (CHR ''0'' # CHR ''x'' # padStart 64 (CHR ''0'') (toString16 1))"
    using encodeKey_decimal [OF d(2), of byteSumHash] by (simp only: v)
  have g: "getBytes (CHR ''0'' # CHR ''x'' # padStart 64 (CHR ''0'') (toString16 1))
      = Inr (leftPad32 1)"
    "getBytes (CHR ''0'' # CHR ''x'' # padStart 64 (CHR ''0'') (toString16 10))
      = Inr (leftPad32 10)"
    "getBytes (CHR ''0'' # CHR ''x'' # padStart 64 (CHR ''0'') (toString16 16))
      = Inr (leftPad32 16)"
    by (simp_all add: getBytes_padded)
  have h: "keccak256Bytes byteSumHash (leftPad32 1 @ leftPad32 10)
      = ''0x000000000000000000000000000000000000000000000000000000000000004b''"
    "keccak256Bytes byteSumHash (leftPad32 1 @ leftPad32 16)
      = ''0x0000000000000000000000000000000000000000000000000000000000000051''"
    by (simp_all add: keccak256Bytes_def hexlifyDigest_def byteSumHash_def leftPad32_def
        bigEndian_numeral bigEndian_1 toString16.simps hexChar_def padStart_def
        replicate_numeral_eval)
  have s: "smallSlotPath byteSumHash ''10'' ''1''
      = Inr (keccak256Bytes byteSumHash (leftPad32 1 @ leftPad32 10))"
    using smallSlotPath_char [OF d(1), of byteSumHash "''1''"]
      hash_two_words [OF g(1) g(2), of byteSumHash]
    by (simp only: v k bindE_def sum.case)
  have t: "generalPath byteSumHash ''10'' ''1''
      = Inr (keccak256Bytes byteSumHash (leftPad32 1 @ leftPad32 16))"
    using generalPath_decimal [OF d(1), of byteSumHash "''1''"]
      hash_two_words [OF g(1) g(3), of byteSumHash]
    by (simp only: v k bindE_def sum.case)
  show ?thesis
    by (simp only: s t h simp_thms)
qed

text \<open>
  Claim C10, amended. For every slot given in decimal digits with a value below 1000 and
  every key, the branch for small slots computes what the general branch computes for the
  same number written in hexadecimal with the prefix 0x; the keys are treated alike in
  both branches. On the decimal string itself the general branch reads the digits in base
  16, so the two branches agree when the value is below 10 (where both readings
  coincide).
\<close>

theorem C10_small_slot_branch:
  assumes "isDecimalString slot" "radixValue 10 slot < 1000"
  shows "smallSlotPath kec slot key
           = generalPath kec (''0x'' @ toString16 (radixValue 10 slot)) key
       \<and> generalPath kec slot key
           = generalPath kec (''0x'' @ toString16 (radixValue 16 slot)) key
       \<and> (radixValue 10 slot < 10 \<longrightarrow> smallSlotPath kec slot key = generalPath kec slot key)"
proof (intro conjI impI)
  show "smallSlotPath kec slot key = generalPath kec (''0x'' @ toString16 (radixValue 10 slot)) key"
    using assms
    by (simp add: smallSlotPath_char generalPath_hex isRadixString_toString16 radixValue_toString16)
  show "generalPath kec slot key = generalPath kec (''0x'' @ toString16 (radixValue 16 slot)) key"
    using assms(1)
    by (simp add: generalPath_decimal generalPath_hex isRadixString_toString16
        radixValue_toString16)
next
  assume "radixValue 10 slot < 10"
  with assms(1) have "radixValue 16 slot = radixValue 10 slot"
    by (simp add: radixValue_16_small isDecimalString_def)
  with assms show "smallSlotPath kec slot key = generalPath kec slot key"
    by (simp add: smallSlotPath_char generalPath_decimal)
qed

theorem C10_witness:
  "smallSlotPath byteSumHash ''10'' ''1'' = generalPath byteSumHash ''0xa'' ''1''
   \<and> generalPath byteSumHash ''10'' ''1'' = generalPath byteSumHash ''0x10'' ''1''
   \<and> smallSlotPath byteSumHash ''7'' ''1'' = generalPath byteSumHash ''7'' ''1''"
proof -
  have d: "isDecimalString ''10''" "isDecimalString ''7''"
    by (simp_all add: isDecimalString_def isDigit_def)
  have v: "radixValue 10 ''10'' = 10" "radixValue 16 ''10'' = 16" "radixValue 10 ''7'' = 7"
    "radixValue 16 ''7'' = 7"
    by (simp_all add: radixValue_def digitNat_def digitValue_def)
  have s: "toString16 10 = ''a''" "toString16 16 = ''10''" "toString16 7 = ''7''"
    by (simp_all add: toString16.simps hexChar_def)
  from C10_small_slot_branch [of "''10''" byteSumHash "''1''"]
    C10_small_slot_branch [of "''7''" byteSumHash "''1''"]
  show ?thesis by (simp add: d v s)
qed




text \<open>
  Claim C6, as stated: a string of at most 31 bytes is encoded as its raw bytes, and an
  input longer than 31 bytes fails. It is false: \<open>encodeStringForStorage\<close> counts the
  code units of the string (\<open>value.length\<close>), not its bytes, and writes one byte per code
  unit. The string of 16 letters \<open>e\<close> with an acute accent (code unit \<open>0xe9\<close>) has 32 bytes
  in UTF-8, two per letter; it is accepted, and encoded as 16 bytes \<open>e9\<close> with the final
  byte \<open>0x20\<close>, twice 16.
\<close>

theorem C6_counterexample:
  "length (toUtf8Bytes (replicate 16 (CHR 0xE9))) = 32
   \<and> toUtf8Bytes [CHR 0xE9] = [0xC3, 0xA9]
   \<and> encodeStringForStorage (codeUnits (replicate 16 (CHR 0xE9)))
     = Inr ''0xe9e9e9e9e9e9e9e9e9e9e9e9e9e9e9e900000000000000000000000000000020''"
  by (simp add: toUtf8Bytes_def encodeStringForStorage_def codeUnits_def charCodeHex_def
      padStart_def padEnd_def toString16.simps hexChar_def replicate_numeral_eval)

text \<open>
  Claim C6, amended. The length is counted in code units. For every string of at most 31
  code units, all below 256, \<open>encodeStringForStorage\<close> returns the word whose bytes are
  the code units, one byte each, then zeros up to 31 bytes, then one byte holding twice
  the number of code units. For every string of more than 31 code units it fails with
  the error of the unsupported long strings. For a string of characters below 128 the
  code units are the raw bytes of the string, and the claim holds as it is stated, in
  bytes: \<open>"Hello"\<close> is encoded as \<open>0x48656c6c6f\<close>, zeros, and the final byte \<open>0a\<close>.
\<close>

theorem C6_short_string_by_code_units:
  "(length v \<le> 31 \<and> (\<forall>u\<in>set v. u < 256) \<longrightarrow>
      encodeStringForStorage v =
        Inr (hexlify (map unitByte v @ replicate (31 - length v) 0 @ [of_nat (2 * length v)])))
   \<and> (31 < length v \<longrightarrow> encodeStringForStorage v = Inl LongStringsNotSupported)
   \<and> ((\<forall>c\<in>set s. (of_char c :: nat) < 128) \<longrightarrow>
        (length (toUtf8Bytes s) \<le> 31 \<longrightarrow>
           encodeStringForStorage (codeUnits s) =
             Inr (hexlify (toUtf8Bytes s @ replicate (31 - length (toUtf8Bytes s)) 0
                    @ [of_nat (2 * length (toUtf8Bytes s))])))
        \<and> (31 < length (toUtf8Bytes s) \<longrightarrow>
             encodeStringForStorage (codeUnits s) = Inl LongStringsNotSupported))"
proof (intro conjI impI)
  assume "length v \<le> 31 \<and> (\<forall>u\<in>set v. u < 256)"
  then show "encodeStringForStorage v =
        Inr (hexlify (map unitByte v @ replicate (31 - length v) 0 @ [of_nat (2 * length v)]))"
    by (simp add: encodeStringForStorage_bytes)
next
  assume "31 < length v"
  then show "encodeStringForStorage v = Inl LongStringsNotSupported"
    by (simp add: encodeStringForStorage_def)
next
  assume a: "\<forall>c\<in>set s. (of_char c :: nat) < 128"
  then have u: "toUtf8Bytes s = map unitByte (codeUnits s)"
    by (rule ascii_utf8)
  have l: "length (codeUnits s) = length s" by (simp add: codeUnits_def)
  have b: "length (toUtf8Bytes s) = length s" by (simp only: u length_map l)
  {
    assume "length (toUtf8Bytes s) \<le> 31"
    then have "length (codeUnits s) \<le> 31" by (simp only: b l)
    then have "encodeStringForStorage (codeUnits s) =
        Inr (hexlify (map unitByte (codeUnits s) @ replicate (31 - length (codeUnits s)) 0
               @ [of_nat (2 * length (codeUnits s))]))"
      by (intro encodeStringForStorage_bytes codeUnits_below)
    then show "encodeStringForStorage (codeUnits s) =
          Inr (hexlify (toUtf8Bytes s @ replicate (31 - length (toUtf8Bytes s)) 0
                 @ [of_nat (2 * length (toUtf8Bytes s))]))"
      by (simp only: u length_map l)
  }
  {
    assume "31 < length (toUtf8Bytes s)"
    then have "31 < length (codeUnits s)" by (simp only: b l)
    then show "encodeStringForStorage (codeUnits s) = Inl LongStringsNotSupported"
      by (simp add: encodeStringForStorage_def)
  }
qed

theorem C6_witness:
  "encodeStringForStorage (codeUnits ''Hello'') =
     Inr ''0x48656c6c6f00000000000000000000000000000000000000000000000000000a''
   \<and> encodeStringForStorage (codeUnits (replicate 16 (CHR 0xE9))) =
     Inr ''0xe9e9e9e9e9e9e9e9e9e9e9e9e9e9e9e900000000000000000000000000000020''
   \<and> encodeStringForStorage (codeUnits (replicate 32 (CHR 0xE9))) = Inl LongStringsNotSupported
   \<and> encodeStringForStorage (codeUnits ''abcdefghijklmnopqrstuvwxyz012345'')
     = Inl LongStringsNotSupported"
proof -
  have h: "toUtf8Bytes ''Hello'' = [72, 101, 108, 108, 111]"
    by (simp add: toUtf8Bytes_def)
  have a: "encodeStringForStorage (codeUnits ''Hello'') =
     Inr ''0x48656c6c6f00000000000000000000000000000000000000000000000000000a''"
    using C6_short_string_by_code_units [of "[]" "''Hello''"]
    by (simp add: h hexlify_def byteHex_def hexChar_def replicate_numeral_eval)
  have b: "encodeStringForStorage (codeUnits (replicate 16 (CHR 0xE9))) =
     Inr ''0xe9e9e9e9e9e9e9e9e9e9e9e9e9e9e9e900000000000000000000000000000020''"
    using C6_short_string_by_code_units [of "codeUnits (replicate 16 (CHR 0xE9))" "[]"]
    by (simp add: codeUnits_def unitByte_def hexlify_def byteHex_def hexChar_def
        replicate_numeral_eval)
  have c: "encodeStringForStorage (codeUnits (replicate 32 (CHR 0xE9))) = Inl LongStringsNotSupported"
    using C6_short_string_by_code_units [of "codeUnits (replicate 32 (CHR 0xE9))" "[]"]
    by (simp add: codeUnits_def)
  have t: "length (toUtf8Bytes ''abcdefghijklmnopqrstuvwxyz012345'') = 32"
    by (simp add: toUtf8Bytes_def)
  have d: "encodeStringForStorage (codeUnits ''abcdefghijklmnopqrstuvwxyz012345'')
     = Inl LongStringsNotSupported"
    using C6_short_string_by_code_units [of "[]" "''abcdefghijklmnopqrstuvwxyz012345''"]
    by (simp add: t)
  from a b c d show ?thesis by (intro conjI)
qed

end
